theory Spec2Isabelle
  imports Complex_Main "HOL-Library.Multiset"
begin

section \<open>Data model\<close>

text \<open>
  The module is a Nakama runtime module (\<^verbatim>\<open>src/build/index.js\<close>, compiled from the
  TypeScript that follows it in the same file).  JavaScript numbers are modelled by the
  values they carry upstream: ranks, scores and epochs are 64-bit integers of the
  leaderboard API and are modelled as \<open>int\<close>; the coin amounts of the tournament
  metadata are float64 (see the comment in \<^verbatim>\<open>getReward\<close>) and are modelled as \<open>rat\<close>
  (every finite float64 is a rational; NaN and the infinities cannot be carried by the
  JSON metadata and are not modelled).  A value that may be \<^verbatim>\<open>undefined\<close> or \<^verbatim>\<open>null\<close> is
  an \<open>option\<close>.
\<close>

text \<open>Values that the module throws or that reach its catch blocks.\<close>

datatype js_error =
    errInternal
  | errPermissionDenied
  | TypeError
  | SyntaxError
  | GoError string

text \<open>A reward payload \<^verbatim>\<open>{ "coins": n }\<close>; the reward table maps the tier keys
  \<^verbatim>\<open>"first"\<close>, \<^verbatim>\<open>"second"\<close>, \<^verbatim>\<open>"third"\<close>, \<^verbatim>\<open>"rest"\<close> to payloads.  A key the
  table omits reads as \<^verbatim>\<open>undefined\<close>, here \<open>None\<close>.  A tier that the table defines is
  taken to be a payload with a numeric \<^verbatim>\<open>coins\<close>, as the request schema has it; a payload
  without \<^verbatim>\<open>coins\<close>, or with one that is not a number, is not modelled.\<close>

record reward =
  coins :: rat

type_synonym reward_table = "string \<rightharpoonup> reward"

record leaderboard_record =
  ownerId :: string
  score :: int
  rank :: int

section \<open>Reward lookup\<close>

text \<open>\<^verbatim>\<open>Math.round\<close>: the integral number closest to \<open>x\<close>, the one closer to
  \<open>+\<infinity>\<close> on a tie.  The result is again a JavaScript number.\<close>

definition Math_round :: "rat \<Rightarrow> rat" where
  "Math_round x = of_int \<lfloor>x + 1 / 2\<rfloor>"

text \<open>\<^verbatim>\<open>rewards[tier]["coins"]\<close>: reading a property of \<^verbatim>\<open>undefined\<close> throws a
  TypeError.\<close>

definition tier_coins :: "reward_table \<Rightarrow> string \<Rightarrow> js_error + rat" where
  "tier_coins rewards tier =
     (case rewards tier of None \<Rightarrow> Inl TypeError | Some entry \<Rightarrow> Inr (coins entry))"

definition round_tier :: "reward_table \<Rightarrow> string \<Rightarrow> js_error + reward option" where
  "round_tier rewards tier =
     (case tier_coins rewards tier of
        Inl e \<Rightarrow> Inl e
      | Inr c \<Rightarrow> Inr (Some \<lparr>coins = Math_round c\<rparr>))"

text \<open>\<^verbatim>\<open>getReward(rewards, rank, score)\<close>: \<open>Inr None\<close> is the returned \<^verbatim>\<open>null\<close>.\<close>

definition getReward :: "reward_table \<Rightarrow> int \<Rightarrow> int \<Rightarrow> js_error + reward option" where
  "getReward rewards rank_arg score_arg =
     (if score_arg = 0 then Inr None
      else if rank_arg = 1 then round_tier rewards ''first''
      else if rank_arg = 2 then round_tier rewards ''second''
      else if rank_arg = 3 then round_tier rewards ''third''
      else round_tier rewards ''rest'')"

section \<open>Sorting owner records\<close>

text \<open>\<^verbatim>\<open>records.sort((a, b) => b.score - a.score)\<close>: \<^verbatim>\<open>Array.prototype.sort\<close> is a
  stable sort; the comparator orders by descending score, that is by ascending
  \<open>- score\<close>.\<close>

definition sort_desc :: "leaderboard_record list \<Rightarrow> leaderboard_record list" where
  "sort_desc records = sort_key (\<lambda>r. - score r) records"

text \<open>\<^verbatim>\<open>sorted.forEach((record, index) => record.rank = index + 1)\<close>.\<close>

definition assign_ranks :: "leaderboard_record list \<Rightarrow> leaderboard_record list" where
  "assign_ranks sorted_records =
     map (\<lambda>(index, r). r\<lparr>rank := int index + 1\<rparr>) (enumerate 0 sorted_records)"

text \<open>\<^verbatim>\<open>SortRecords(records)\<close>: an \<^verbatim>\<open>undefined\<close> argument is returned as it is.\<close>

definition SortRecords :: "leaderboard_record list option \<Rightarrow> leaderboard_record list option" where
  "SortRecords records =
     (case records of None \<Rightarrow> None | Some rs \<Rightarrow> Some (assign_ranks (sort_desc rs)))"

section \<open>The runtime environment\<close>

text \<open>Objects of the Nakama runtime API, with the fields this module reads or writes.\<close>

record rpc_context =
  ctx_userId :: "string option"

record user =
  userId :: string

text \<open>\<^verbatim>\<open>UserBucketStorageObject\<close>.\<close>

record user_bucket =
  resetTimeUnix :: int
  userIds :: "string list"

text \<open>A tournament, with the fields the module reads.  \<open>metadata\<close> is \<open>None\<close> when
  \<^verbatim>\<open>tournament.metadata\<close> is \<^verbatim>\<open>undefined\<close> or \<^verbatim>\<open>null\<close>; otherwise it holds the object,
  whose key \<^verbatim>\<open>"rewards"\<close> is the reward table (a key it lacks, or one with a falsy value,
  reads as \<open>None\<close>).\<close>

record tournament =
  tournament_id :: string
  title :: "string option"
  endActive :: int
  metadata :: "(string \<rightharpoonup> reward_table) option"

record leaderboard_record_list =
  records :: "leaderboard_record list option"
  ownerRecords :: "leaderboard_record list option"
  nextCursor :: "string option"
  prevCursor :: "string option"

record storage_read_request =
  sr_collection :: string
  sr_key :: string
  sr_userId :: string

record storage_object =
  object_value :: user_bucket

record storage_write_request =
  sw_collection :: string
  sw_key :: string
  sw_userId :: string
  sw_value :: user_bucket
  permissionRead :: int
  permissionWrite :: int

record notification_content =
  event_name :: "string option"
  content_reward :: reward
  content_rank :: int

record notification_request =
  notification_code :: int
  content :: notification_content
  persistent :: bool
  subject :: string
  n_userId :: string

record wallet_update =
  wu_userId :: string
  changeset :: reward

text \<open>The fifteen arguments of \<^verbatim>\<open>nk.tournamentCreate\<close>, in order.\<close>

record tournament_create_request =
  tc_id :: "string option"
  tc_authoritative :: bool
  tc_sortOrder :: string
  tc_operator :: string
  tc_duration :: "int option"
  tc_resetSchedule :: "string option"
  tc_metadata :: "string \<rightharpoonup> reward_table"
  tc_title :: "string option"
  tc_description :: "string option"
  tc_category :: int
  tc_startTime :: "int option"
  tc_endTime :: int
  tc_maxSize :: "int option"
  tc_maxNumScore :: "int option"
  tc_joinRequired :: bool

text \<open>The parsed request bodies (\<^verbatim>\<open>message["id"]\<close> and so on; a missing field reads
  as \<^verbatim>\<open>undefined\<close>).\<close>

record create_message =
  cm_id :: "string option"
  cm_duration :: "int option"
  cm_start_time :: "int option"
  cm_rewards :: "reward_table option"

record bucket_message =
  bm_id :: "string option"
  bm_limit :: "int option"

text \<open>
  What a run does to the outside is recorded as a trace of events: one event per call
  of a collaborator (with the arguments passed) and per logger line (with its format
  string).  \<open>Visit r\<close> is a ghost event: it marks that the callback of
  \<^verbatim>\<open>results.records.forEach\<close> in \<^verbatim>\<open>distributeEventRewards\<close> was entered for \<open>r\<close>.
\<close>

datatype event =
    LoggerDebug string
  | LoggerError string js_error
  | StorageRead "storage_read_request list"
  | StorageWrite "storage_write_request list"
  | TournamentsGetId "string option list"
  | UsersGetRandom int
  | TournamentRecordsList "string option" "string list" "int option" "string option" "int option"
  | WalletsUpdate "wallet_update list" bool
  | NotificationsSend "notification_request list"
  | MetricsTimerRecord string "(string \<times> string) list" int
  | TournamentCreate tournament_create_request
  | Visit leaderboard_record

text \<open>
  The collaborators behind \<^verbatim>\<open>nk\<close> are arbitrary: each is a function of its arguments
  and of the state \<open>'w\<close> of the outside world, which returns a value or throws, and
  changes the world.  \<open>Date_now\<close> is the clock read by \<^verbatim>\<open>Date.now()\<close>.  The logger is
  taken not to throw, and every thrown value to be an object, so that the read of
  \<^verbatim>\<open>error.message\<close> in a catch block does not throw.
\<close>

record 'w nakama =
  storageRead :: "storage_read_request list \<Rightarrow> 'w \<Rightarrow> (js_error + storage_object list) \<times> 'w"
  storageWrite :: "storage_write_request list \<Rightarrow> 'w \<Rightarrow> (js_error + unit) \<times> 'w"
  tournamentsGetId :: "string option list \<Rightarrow> 'w \<Rightarrow> (js_error + tournament list) \<times> 'w"
  usersGetRandom :: "int \<Rightarrow> 'w \<Rightarrow> (js_error + user list) \<times> 'w"
  tournamentRecordsList ::
    "string option \<Rightarrow> string list \<Rightarrow> int option \<Rightarrow> string option \<Rightarrow> int option \<Rightarrow> 'w
      \<Rightarrow> (js_error + leaderboard_record_list) \<times> 'w"
  walletsUpdate :: "wallet_update list \<Rightarrow> bool \<Rightarrow> 'w \<Rightarrow> (js_error + unit) \<times> 'w"
  notificationsSend :: "notification_request list \<Rightarrow> 'w \<Rightarrow> (js_error + unit) \<times> 'w"
  metricsTimerRecord :: "string \<Rightarrow> (string \<times> string) list \<Rightarrow> int \<Rightarrow> 'w \<Rightarrow> (js_error + unit) \<times> 'w"
  tournamentCreate :: "tournament_create_request \<Rightarrow> 'w \<Rightarrow> (js_error + unit) \<times> 'w"
  Date_now :: "'w \<Rightarrow> int"

record 'w sys =
  world :: 'w
  calls :: "event list"

text \<open>A piece of program: it runs on a state and returns normally (\<open>Inr\<close>) or with a
  thrown value (\<open>Inl\<close>), and the state after it.\<close>

type_synonym ('w, 'a) prog = "'w sys \<Rightarrow> (js_error + 'a) \<times> 'w sys"

definition return_prog :: "'a \<Rightarrow> ('w, 'a) prog" where
  "return_prog a s = (Inr a, s)"

definition throw_prog :: "js_error \<Rightarrow> ('w, 'a) prog" where
  "throw_prog e s = (Inl e, s)"

definition bind_prog :: "('w, 'a) prog \<Rightarrow> ('a \<Rightarrow> ('w, 'b) prog) \<Rightarrow> ('w, 'b) prog" where
  "bind_prog m f s = (case m s of (Inl e, s') \<Rightarrow> (Inl e, s') | (Inr a, s') \<Rightarrow> f a s')"

definition try_catch :: "('w, 'a) prog \<Rightarrow> (js_error \<Rightarrow> ('w, 'a) prog) \<Rightarrow> ('w, 'a) prog" where
  "try_catch m handler s = (case m s of (Inl e, s') \<Rightarrow> handler e s' | (Inr a, s') \<Rightarrow> (Inr a, s'))"

definition emit :: "event \<Rightarrow> ('w, unit) prog" where
  "emit ev s = (Inr (), s\<lparr>calls := calls s @ [ev]\<rparr>)"

text \<open>A call of a collaborator: the call is recorded, then the collaborator runs on the
  world.\<close>

definition call_nk :: "event \<Rightarrow> ('w \<Rightarrow> (js_error + 'a) \<times> 'w) \<Rightarrow> ('w, 'a) prog" where
  "call_nk ev f s =
     (case f (world s) of (r, w') \<Rightarrow> (r, \<lparr>world = w', calls = calls s @ [ev]\<rparr>))"

definition logger_debug :: "string \<Rightarrow> ('w, unit) prog" where
  "logger_debug fmt = emit (LoggerDebug fmt)"

definition logger_error :: "string \<Rightarrow> js_error \<Rightarrow> ('w, unit) prog" where
  "logger_error fmt e = emit (LoggerError fmt e)"

definition date_now :: "'w nakama \<Rightarrow> ('w, int) prog" where
  "date_now nk s = (Inr (Date_now nk (world s)), s)"

definition nk_storageRead :: "'w nakama \<Rightarrow> storage_read_request list \<Rightarrow> ('w, storage_object list) prog" where
  "nk_storageRead nk reqs = call_nk (StorageRead reqs) (storageRead nk reqs)"

definition nk_storageWrite :: "'w nakama \<Rightarrow> storage_write_request list \<Rightarrow> ('w, unit) prog" where
  "nk_storageWrite nk reqs = call_nk (StorageWrite reqs) (storageWrite nk reqs)"

definition nk_tournamentsGetId :: "'w nakama \<Rightarrow> string option list \<Rightarrow> ('w, tournament list) prog" where
  "nk_tournamentsGetId nk ids = call_nk (TournamentsGetId ids) (tournamentsGetId nk ids)"

definition nk_usersGetRandom :: "'w nakama \<Rightarrow> int \<Rightarrow> ('w, user list) prog" where
  "nk_usersGetRandom nk n = call_nk (UsersGetRandom n) (usersGetRandom nk n)"

definition nk_tournamentRecordsList ::
  "'w nakama \<Rightarrow> string option \<Rightarrow> string list \<Rightarrow> int option \<Rightarrow> string option \<Rightarrow> int option
     \<Rightarrow> ('w, leaderboard_record_list) prog" where
  "nk_tournamentRecordsList nk tid owners page_limit cursor expiry =
     call_nk (TournamentRecordsList tid owners page_limit cursor expiry)
       (tournamentRecordsList nk tid owners page_limit cursor expiry)"

definition nk_walletsUpdate :: "'w nakama \<Rightarrow> wallet_update list \<Rightarrow> bool \<Rightarrow> ('w, unit) prog" where
  "nk_walletsUpdate nk updates updateLedger =
     call_nk (WalletsUpdate updates updateLedger) (walletsUpdate nk updates updateLedger)"

definition nk_notificationsSend :: "'w nakama \<Rightarrow> notification_request list \<Rightarrow> ('w, unit) prog" where
  "nk_notificationsSend nk ns = call_nk (NotificationsSend ns) (notificationsSend nk ns)"

definition nk_metricsTimerRecord ::
  "'w nakama \<Rightarrow> string \<Rightarrow> (string \<times> string) list \<Rightarrow> int \<Rightarrow> ('w, unit) prog" where
  "nk_metricsTimerRecord nk name tags v =
     call_nk (MetricsTimerRecord name tags v) (metricsTimerRecord nk name tags v)"

definition nk_tournamentCreate :: "'w nakama \<Rightarrow> tournament_create_request \<Rightarrow> ('w, unit) prog" where
  "nk_tournamentCreate nk req = call_nk (TournamentCreate req) (tournamentCreate nk req)"

text \<open>\<^verbatim>\<open>if (ctx.userId)\<close>: \<^verbatim>\<open>undefined\<close> and the empty string are falsy.\<close>

definition truthy :: "string option \<Rightarrow> bool" where
  "truthy v = (case v of None \<Rightarrow> False | Some str \<Rightarrow> str \<noteq> [])"

section \<open>Reward distribution\<close>

text \<open>The two arrays \<^verbatim>\<open>notifications\<close> and \<^verbatim>\<open>walletUpdates\<close> that the scan fills.\<close>

record batches =
  notifications :: "notification_request list"
  walletUpdates :: "wallet_update list"

text \<open>The two pushes for a record \<open>r\<close> with the reward \<open>rw\<close>: a notification, then a wallet
  update.\<close>

definition push_reward :: "tournament \<Rightarrow> leaderboard_record \<Rightarrow> reward \<Rightarrow> batches \<Rightarrow> batches" where
  "push_reward tournament r rw acc =
     \<lparr>notifications = notifications acc @
        [\<lparr>notification_code = 1,
          content = \<lparr>event_name = title tournament, content_reward = rw,
                      content_rank = rank r\<rparr>,
          persistent = True,
          subject = ''event_reward'',
          n_userId = ownerId r\<rparr>],
      walletUpdates = walletUpdates acc @ [\<lparr>wu_userId = ownerId r, changeset = rw\<rparr>]\<rparr>"

text \<open>The callback of \<^verbatim>\<open>results.records?.forEach\<close>: the reward of the record is looked
  up, and a record with a reward is pushed to both arrays.\<close>

definition reward_record ::
  "tournament \<Rightarrow> reward_table \<Rightarrow> leaderboard_record \<Rightarrow> batches \<Rightarrow> ('w, batches) prog" where
  "reward_record tournament rewards r acc =
     bind_prog (emit (Visit r)) (\<lambda>_.
       (case getReward rewards (rank r) (score r) of
          Inl e \<Rightarrow> throw_prog e
        | Inr None \<Rightarrow> return_prog acc
        | Inr (Some rw) \<Rightarrow> return_prog (push_reward tournament r rw acc)))"

text \<open>\<^verbatim>\<open>forEach\<close> over an array, left to right; a throwing callback ends it.\<close>

fun forEach_prog :: "('a \<Rightarrow> 'b \<Rightarrow> ('w, 'b) prog) \<Rightarrow> 'a list \<Rightarrow> 'b \<Rightarrow> ('w, 'b) prog" where
  "forEach_prog f [] acc = return_prog acc"
| "forEach_prog f (x # xs) acc = bind_prog (f x acc) (forEach_prog f xs)"

text \<open>One turn of the \<^verbatim>\<open>while\<close> loop: a page of 100 is listed at the cursor, with the
  reset time as expiry override; the callback runs over its records (none when
  \<^verbatim>\<open>results.records\<close> is undefined); the next cursor is \<^verbatim>\<open>results.nextCursor\<close>.\<close>

definition scan_page ::
  "'w nakama \<Rightarrow> tournament \<Rightarrow> reward_table \<Rightarrow> int \<Rightarrow> string \<Rightarrow> batches
     \<Rightarrow> ('w, string option \<times> batches) prog" where
  "scan_page nk tournament rewards reset cursor acc =
     bind_prog
       (nk_tournamentRecordsList nk (Some (tournament_id tournament)) [] (Some 100)
          (Some cursor) (Some reset))
       (\<lambda>results.
          bind_prog
            (forEach_prog (reward_record tournament rewards)
               (case records results of None \<Rightarrow> [] | Some rs \<Rightarrow> rs) acc)
            (\<lambda>acc'. return_prog (nextCursor results, acc')))"

text \<open>\<^verbatim>\<open>while (cursor != undefined) { ... }\<close>: the loop ends when the cursor is
  \<^verbatim>\<open>undefined\<close> or \<^verbatim>\<open>null\<close>, or when its body throws.  It need not end: a run that
  never returns is \<open>None\<close>.\<close>

partial_function (option) scan_records ::
  "'w nakama \<Rightarrow> tournament \<Rightarrow> reward_table \<Rightarrow> int \<Rightarrow> string option \<Rightarrow> batches \<Rightarrow> 'w sys
     \<Rightarrow> ((js_error + batches) \<times> 'w sys) option" where
  "scan_records nk tournament rewards reset cursor acc s =
     (case cursor of
        None \<Rightarrow> Some (Inr acc, s)
      | Some c \<Rightarrow>
          (case scan_page nk tournament rewards reset c acc s of
             (Inl e, s') \<Rightarrow> Some (Inl e, s')
           | (Inr (cursor', acc'), s') \<Rightarrow> scan_records nk tournament rewards reset cursor' acc' s'))"

declare scan_records.simps [code]

text \<open>What follows the loop inside the \<^verbatim>\<open>try\<close> block: the two batches are submitted,
  the number of rewarded players is logged and the elapsed time is reported.\<close>

definition commit_rewards :: "'w nakama \<Rightarrow> int \<Rightarrow> batches \<Rightarrow> ('w, unit) prog" where
  "commit_rewards nk startTime acc =
     bind_prog (nk_walletsUpdate nk (walletUpdates acc) True) (\<lambda>_.
     bind_prog (nk_notificationsSend nk (notifications acc)) (\<lambda>_.
     bind_prog (logger_debug ''%d players received rewards from the event %s'') (\<lambda>_.
     bind_prog (date_now nk) (\<lambda>endTime.
       nk_metricsTimerRecord nk ''rewardDistributionElapsedTimeSec'' [] (endTime - startTime)))))"

text \<open>The body of the \<^verbatim>\<open>try\<close> block.\<close>

definition try_distribute ::
  "'w nakama \<Rightarrow> tournament \<Rightarrow> reward_table \<Rightarrow> int \<Rightarrow> 'w sys
     \<Rightarrow> ((js_error + unit) \<times> 'w sys) option" where
  "try_distribute nk tournament rewards reset s =
     (case date_now nk s of
        (Inl e, s1) \<Rightarrow> Some (Inl e, s1)
      | (Inr startTime, s1) \<Rightarrow>
          (case scan_records nk tournament rewards reset (Some [])
                  \<lparr>notifications = [], walletUpdates = []\<rparr> s1 of
             None \<Rightarrow> None
           | Some (Inl e, s2) \<Rightarrow> Some (Inl e, s2)
           | Some (Inr acc, s2) \<Rightarrow> Some (commit_rewards nk startTime acc s2)))"

text \<open>\<^verbatim>\<open>distributeEventRewards(ctx, logger, nk, tournament, end, reset)\<close>.  The read
  \<^verbatim>\<open>tournament.metadata["rewards"]\<close> stands before the \<^verbatim>\<open>try\<close> block: when
  \<^verbatim>\<open>tournament.metadata\<close> is \<^verbatim>\<open>undefined\<close> or \<^verbatim>\<open>null\<close> it throws a TypeError to the caller.  A falsy
  value of the key returns at once.  The \<^verbatim>\<open>catch\<close> block logs the error and the function
  returns.\<close>

definition distributeEventRewards ::
  "'w nakama \<Rightarrow> tournament \<Rightarrow> int \<Rightarrow> int \<Rightarrow> 'w sys \<Rightarrow> ((js_error + unit) \<times> 'w sys) option" where
  "distributeEventRewards nk tournament end_time reset s =
     (case logger_debug ''Distributing event rewards for %s'' s of
        (Inl e, s0) \<Rightarrow> Some (Inl e, s0)
      | (Inr _, s0) \<Rightarrow>
          (case metadata tournament of
             None \<Rightarrow> Some (Inl TypeError, s0)
           | Some md \<Rightarrow>
               (case md ''rewards'' of
                  None \<Rightarrow> Some (logger_debug ''No rewards are defined for %s'' s0)
                | Some rewards \<Rightarrow>
                    (case try_distribute nk tournament rewards reset s0 of
                       None \<Rightarrow> None
                     | Some (Inl error, s1) \<Rightarrow>
                         Some (logger_error ''Error while distributing rewards: %s'' error s1)
                     | Some (Inr u, s1) \<Rightarrow> Some (Inr u, s1)))))"

section \<open>The RPCs\<close>

text \<open>
  \<^verbatim>\<open>JSON.parse\<close> and the reads of the message's fields are a parameter \<open>JSON_parse\<close> of
  the two RPCs: it gives the parsed message, or the error thrown on a payload that is
  not JSON or not an object.
\<close>

text \<open>The returned string \<^verbatim>\<open>JSON.stringify({ "success": true })\<close>; \<open>CHR 0x22\<close> is the
  double quote.\<close>

definition success_json :: string where
  "success_json = ''{'' @ CHR 0x22 # ''success'' @ CHR 0x22 # '':true}''"

text \<open>The arguments of \<^verbatim>\<open>nk.tournamentCreate\<close> that the RPC builds from the message.\<close>

definition create_request :: "create_message \<Rightarrow> tournament_create_request" where
  "create_request message =
     \<lparr>tc_id = cm_id message,
      tc_authoritative = False,
      tc_sortOrder = ''desc'',
      tc_operator = ''incr'',
      tc_duration = cm_duration message,
      tc_resetSchedule = None,
      tc_metadata =
        (case cm_rewards message of
           None \<Rightarrow> Map.empty
         | Some rewards \<Rightarrow> [''rewards'' \<mapsto> rewards]),
      tc_title = None,
      tc_description = None,
      tc_category = 1,
      tc_startTime = cm_start_time message,
      tc_endTime = 0,
      tc_maxSize = None,
      tc_maxNumScore = None,
      tc_joinRequired = False\<rparr>"

text \<open>\<^verbatim>\<open>serverCreateLiveEventRpc(ctx, logger, nk, payload)\<close>.\<close>

definition serverCreateLiveEventRpc ::
  "(string \<Rightarrow> js_error + create_message) \<Rightarrow> rpc_context \<Rightarrow> 'w nakama \<Rightarrow> string
     \<Rightarrow> ('w, string) prog" where
  "serverCreateLiveEventRpc JSON_parse ctx nk payload =
     (if truthy (ctx_userId ctx) then throw_prog errPermissionDenied
      else
        bind_prog
          (try_catch
             (case JSON_parse payload of
                Inl e \<Rightarrow> throw_prog e
              | Inr message \<Rightarrow> nk_tournamentCreate nk (create_request message))
             (\<lambda>error.
                bind_prog (logger_error ''Error while creating tournament: %s'' error)
                  (\<lambda>_. throw_prog errInternal)))
          (\<lambda>_. return_prog success_json))"

definition bucketSize :: nat where
  "bucketSize = 15"

text \<open>The regeneration branch: the member list is cleared, filled with the ids of the
  sampled users, the reset time is set and the bucket is written.\<close>

definition regenerate_bucket ::
  "'w nakama \<Rightarrow> string \<Rightarrow> tournament \<Rightarrow> ('w, user_bucket) prog" where
  "regenerate_bucket nk uid t0 =
     bind_prog (logger_debug ''getBucketedTournamentRpc new bucket for '') (\<lambda>_.
     bind_prog (nk_usersGetRandom nk (int bucketSize)) (\<lambda>users.
       (let userBucket = \<lparr>resetTimeUnix = endActive t0, userIds = map userId users\<rparr> in
        bind_prog
          (nk_storageWrite nk
             [\<lparr>sw_collection = ''buckets'', sw_key = ''bucket'', sw_userId = uid,
               sw_value = userBucket, permissionRead = 0, permissionWrite = 0\<rparr>])
          (\<lambda>_. return_prog userBucket))))"

text \<open>The condition of the \<^verbatim>\<open>if\<close> that guards the regeneration.\<close>

definition stale :: "user_bucket \<Rightarrow> tournament \<Rightarrow> bool" where
  "stale userBucket t0 \<longleftrightarrow>
     resetTimeUnix userBucket \<noteq> endActive t0 \<or> length (userIds userBucket) < bucketSize"

text \<open>The bucket that \<^verbatim>\<open>getBucketedTournamentRpc\<close> starts from: \<^verbatim>\<open>objects[0].value\<close>,
  or the empty bucket when nothing is stored.\<close>

definition stored_bucket :: "storage_object list \<Rightarrow> user_bucket" where
  "stored_bucket objects =
     (case objects of [] \<Rightarrow> \<lparr>resetTimeUnix = 0, userIds = []\<rparr> | obj # _ \<Rightarrow> object_value obj)"

text \<open>The body of the \<^verbatim>\<open>try\<close> block of \<^verbatim>\<open>getBucketedTournamentRpc\<close>, for the user
  id \<open>uid\<close>.  \<^verbatim>\<open>tournaments[0].endActive\<close> throws a TypeError when no tournament was
  found.  The result is the listing before \<^verbatim>\<open>JSON.stringify\<close>.\<close>

definition bucketed_records ::
  "(string \<Rightarrow> js_error + bucket_message) \<Rightarrow> string \<Rightarrow> 'w nakama \<Rightarrow> string
     \<Rightarrow> ('w, leaderboard_record_list) prog" where
  "bucketed_records JSON_parse uid nk payload =
     (case JSON_parse payload of
        Inl e \<Rightarrow> throw_prog e
      | Inr message \<Rightarrow>
          bind_prog
            (nk_storageRead nk
               [\<lparr>sr_collection = ''buckets'', sr_key = ''bucket'', sr_userId = uid\<rparr>])
            (\<lambda>objects.
               (let userBucket = stored_bucket objects in
                bind_prog (nk_tournamentsGetId nk [bm_id message]) (\<lambda>tournaments.
                  (case tournaments of
                     [] \<Rightarrow> throw_prog TypeError
                   | t0 # _ \<Rightarrow>
                       bind_prog
                         (if stale userBucket t0 then regenerate_bucket nk uid t0
                          else return_prog userBucket)
                         (\<lambda>userBucket'.
                            bind_prog
                              (nk_tournamentRecordsList nk (bm_id message)
                                 (userIds userBucket' @ [uid]) (bm_limit message) None None)
                              (\<lambda>recs.
                                 return_prog
                                   (recs\<lparr>ownerRecords := SortRecords (ownerRecords recs)\<rparr>))))))))"

text \<open>\<^verbatim>\<open>getBucketedTournamentRpc(ctx, logger, nk, payload)\<close>.\<close>

definition getBucketedTournamentRpc ::
  "(string \<Rightarrow> js_error + bucket_message) \<Rightarrow> rpc_context \<Rightarrow> 'w nakama \<Rightarrow> string
     \<Rightarrow> ('w, leaderboard_record_list) prog" where
  "getBucketedTournamentRpc JSON_parse ctx nk payload =
     (case ctx_userId ctx of
        None \<Rightarrow> throw_prog errPermissionDenied
      | Some uid \<Rightarrow>
          if \<not> truthy (Some uid) then throw_prog errPermissionDenied
          else
            try_catch (bucketed_records JSON_parse uid nk payload)
              (\<lambda>error.
                 bind_prog (logger_error ''Error while getting local tournaments: %s'' error)
                   (\<lambda>_. throw_prog errInternal)))"

section \<open>Observations of a run\<close>

text \<open>The events a run added to the trace.\<close>

definition new_calls :: "'w sys \<Rightarrow> 'w sys \<Rightarrow> event list" where
  "new_calls s s' = drop (length (calls s)) (calls s')"

text \<open>The records the scan visited, in order.\<close>

definition visited :: "event list \<Rightarrow> leaderboard_record list" where
  "visited tr = concat (map (\<lambda>ev. case ev of Visit r \<Rightarrow> [r] | _ \<Rightarrow> []) tr)"

text \<open>The listing requests of a trace.\<close>

definition listings :: "event list \<Rightarrow> event list" where
  "listings tr =
     filter (\<lambda>ev. case ev of TournamentRecordsList _ _ _ _ _ \<Rightarrow> True | _ \<Rightarrow> False) tr"

text \<open>The member lists passed to the listing, the sizes asked of the sampler, the
  storage writes and the events created, each in order.\<close>

definition listed_members :: "event list \<Rightarrow> string list list" where
  "listed_members tr =
     concat (map (\<lambda>ev. case ev of TournamentRecordsList _ owners _ _ _ \<Rightarrow> [owners] | _ \<Rightarrow> []) tr)"

definition sampled :: "event list \<Rightarrow> int list" where
  "sampled tr = concat (map (\<lambda>ev. case ev of UsersGetRandom n \<Rightarrow> [n] | _ \<Rightarrow> []) tr)"

definition storage_writes :: "event list \<Rightarrow> storage_write_request list list" where
  "storage_writes tr = concat (map (\<lambda>ev. case ev of StorageWrite reqs \<Rightarrow> [reqs] | _ \<Rightarrow> []) tr)"

definition created :: "event list \<Rightarrow> tournament_create_request list" where
  "created tr = concat (map (\<lambda>ev. case ev of TournamentCreate req \<Rightarrow> [req] | _ \<Rightarrow> []) tr)"

definition wallet_batches :: "event list \<Rightarrow> wallet_update list list" where
  "wallet_batches tr =
     concat (map (\<lambda>ev. case ev of WalletsUpdate updates _ \<Rightarrow> [updates] | _ \<Rightarrow> []) tr)"

text \<open>The member lists that the storage writes of a trace persist.\<close>

definition written_members :: "event list \<Rightarrow> string list list" where
  "written_members tr = map (\<lambda>req. userIds (sw_value req)) (concat (storage_writes tr))"

text \<open>The write request of a regeneration for the sampled \<open>users\<close>.\<close>

definition bucket_write :: "string \<Rightarrow> tournament \<Rightarrow> user list \<Rightarrow> storage_write_request" where
  "bucket_write uid t0 users =
     \<lparr>sw_collection = ''buckets'', sw_key = ''bucket'', sw_userId = uid,
      sw_value = \<lparr>resetTimeUnix = endActive t0, userIds = map userId users\<rparr>,
      permissionRead = 0, permissionWrite = 0\<rparr>"

text \<open>The per-record decision of a record does not throw.\<close>

definition no_throw :: "reward_table \<Rightarrow> leaderboard_record \<Rightarrow> bool" where
  "no_throw rewards r \<longleftrightarrow>
     (case getReward rewards (rank r) (score r) of Inl e \<Rightarrow> False | Inr v \<Rightarrow> True)"

text \<open>An event of the scan loop: a visit, or a listing request for the tournament with
  no member filter, page size 100, a cursor and the reset time as expiry override.\<close>

definition scan_event :: "tournament \<Rightarrow> int \<Rightarrow> event \<Rightarrow> bool" where
  "scan_event t reset ev \<longleftrightarrow>
     (case ev of
        Visit r \<Rightarrow> True
      | TournamentRecordsList tid owners page_limit cursor expiry \<Rightarrow>
          tid = Some (tournament_id t) \<and> owners = [] \<and> page_limit = Some 100 \<and>
          cursor \<noteq> None \<and> expiry = Some reset
      | _ \<Rightarrow> False)"

text \<open>The listing request of the scan at the cursor \<open>c\<close>.\<close>

definition scan_request :: "tournament \<Rightarrow> int \<Rightarrow> string \<Rightarrow> event" where
  "scan_request t reset c =
     TournamentRecordsList (Some (tournament_id t)) [] (Some 100) (Some c) (Some reset)"

text \<open>
  The paginated listing as the scan meets it.  \<open>listed_pages nk t reset n cursor w\<close>
  follows the listing from the cursor \<open>cursor\<close> in the world \<open>w\<close>: each request is the
  scan's request at the current cursor, in the world that the request before it left,
  and the next cursor is the \<open>nextCursor\<close> of the page returned.  It is the list of the
  cursors requested and the pages returned, up to the page whose \<open>nextCursor\<close> is
  exhausted; it is \<open>None\<close> when a request throws or when the cursor is not exhausted
  within \<open>n\<close> pages.  Nothing is asked of the listing at other cursors or in other
  worlds.  The records of the leaderboard are those of the pages, in order.
\<close>

fun listed_pages ::
  "'w nakama \<Rightarrow> tournament \<Rightarrow> int \<Rightarrow> nat \<Rightarrow> string option \<Rightarrow> 'w
     \<Rightarrow> (string \<times> leaderboard_record_list) list option" where
  "listed_pages nk t reset n None w = Some []"
| "listed_pages nk t reset 0 (Some c) w = None"
| "listed_pages nk t reset (Suc n) (Some c) w =
     (case tournamentRecordsList nk (Some (tournament_id t)) [] (Some 100) (Some c)
             (Some reset) w of
        (Inl e, w') \<Rightarrow> None
      | (Inr p, w') \<Rightarrow> map_option ((#) (c, p)) (listed_pages nk t reset n (nextCursor p) w'))"

definition page_records :: "leaderboard_record_list \<Rightarrow> leaderboard_record list" where
  "page_records p = (case records p of None \<Rightarrow> [] | Some rs \<Rightarrow> rs)"

definition leaderboard_of ::
  "(string \<times> leaderboard_record_list) list \<Rightarrow> leaderboard_record list" where
  "leaderboard_of ps = concat (map (\<lambda>(c, p). page_records p) ps)"

text \<open>What the decision of one record adds to the batches when it does not throw, and
  the batches after the decisions of a list of records, one decision per record, in
  order.\<close>

definition decided :: "tournament \<Rightarrow> reward_table \<Rightarrow> leaderboard_record \<Rightarrow> batches \<Rightarrow> batches" where
  "decided t rewards r acc =
     (case getReward rewards (rank r) (score r) of
        Inr (Some rw) \<Rightarrow> push_reward t r rw acc
      | _ \<Rightarrow> acc)"

definition decided_all ::
  "tournament \<Rightarrow> reward_table \<Rightarrow> leaderboard_record list \<Rightarrow> batches \<Rightarrow> batches" where
  "decided_all t rewards rs acc = fold (decided t rewards) rs acc"

section \<open>Sample inputs\<close>

text \<open>The reward table of the sample request in the source, the table of the end-to-end
  scenario with a first tier only, and a table with fractional amounts.\<close>

definition sample_rewards :: reward_table where
  "sample_rewards =
     [''first'' \<mapsto> \<lparr>coins = 250\<rparr>, ''second'' \<mapsto> \<lparr>coins = 200\<rparr>,
      ''third'' \<mapsto> \<lparr>coins = 150\<rparr>, ''rest'' \<mapsto> \<lparr>coins = 50\<rparr>]"

definition first_only_rewards :: reward_table where
  "first_only_rewards = [''first'' \<mapsto> \<lparr>coins = 100\<rparr>]"

definition fractional_rewards :: reward_table where
  "fractional_rewards =
     [''first'' \<mapsto> \<lparr>coins = 2504 / 10\<rparr>, ''second'' \<mapsto> \<lparr>coins = 1995 / 10\<rparr>,
      ''third'' \<mapsto> \<lparr>coins = 15049 / 100\<rparr>, ''rest'' \<mapsto> \<lparr>coins = 5 / 2\<rparr>]"

text \<open>A leaderboard of four records, listed in two pages.\<close>

definition alice :: leaderboard_record where
  "alice = \<lparr>ownerId = ''alice'', score = 50, rank = 1\<rparr>"

definition bob :: leaderboard_record where
  "bob = \<lparr>ownerId = ''bob'', score = 30, rank = 2\<rparr>"

definition carol :: leaderboard_record where
  "carol = \<lparr>ownerId = ''carol'', score = 10, rank = 3\<rparr>"

definition dave :: leaderboard_record where
  "dave = \<lparr>ownerId = ''dave'', score = 0, rank = 4\<rparr>"

definition demo_page :: "string \<Rightarrow> leaderboard_record_list" where
  "demo_page c =
     (if c = [] then
        \<lparr>records = Some [alice, bob], ownerRecords = None, nextCursor = Some ''page2'',
         prevCursor = None\<rparr>
      else
        \<lparr>records = Some [carol, dave], ownerRecords = None, nextCursor = None,
         prevCursor = None\<rparr>)"

definition demo_tournament :: "reward_table option \<Rightarrow> tournament" where
  "demo_tournament rewards =
     \<lparr>tournament_id = ''live_event_1'', title = None, endActive = 1000,
      metadata =
        Some (case rewards of None \<Rightarrow> Map.empty | Some table \<Rightarrow> [''rewards'' \<mapsto> table])\<rparr>"

text \<open>A tournament object without a metadata object.\<close>

definition no_metadata_tournament :: tournament where
  "no_metadata_tournament =
     \<lparr>tournament_id = ''live_event_1'', title = None, endActive = 1000, metadata = None\<rparr>"

text \<open>Fifteen sampled users.\<close>

definition demo_users :: "user list" where
  "demo_users =
     map (\<lambda>uid. \<lparr>userId = uid\<rparr>)
       [''u01'', ''u02'', ''u03'', ''u04'', ''u05'', ''u06'', ''u07'', ''u08'', ''u09'', ''u10'',
        ''u11'', ''u12'', ''u13'', ''u14'', ''u15'']"

text \<open>A world with a clock and the storage object of one player, and collaborators
  that all succeed: the storage keeps what is written, the sampler returns the first
  \<open>n\<close> of \<open>users\<close>, the listing returns the pages of \<open>demo_page\<close>.\<close>

record demo_world =
  clock :: int
  bucket :: "user_bucket option"

definition demo_nk :: "user list \<Rightarrow> reward_table option \<Rightarrow> demo_world nakama" where
  "demo_nk users rewards =
     \<lparr>storageRead = (\<lambda>reqs w.
        (Inr (case bucket w of None \<Rightarrow> [] | Some b \<Rightarrow> [\<lparr>object_value = b\<rparr>]), w)),
      storageWrite = (\<lambda>reqs w.
        (Inr (), (case reqs of [] \<Rightarrow> w | req # _ \<Rightarrow> w\<lparr>bucket := Some (sw_value req)\<rparr>))),
      tournamentsGetId = (\<lambda>ids w. (Inr [demo_tournament rewards], w)),
      usersGetRandom = (\<lambda>n w. (Inr (take (nat n) users), w)),
      tournamentRecordsList = (\<lambda>tid owners page_limit cursor expiry w.
        (Inr (demo_page (case cursor of None \<Rightarrow> [] | Some c \<Rightarrow> c)), w)),
      walletsUpdate = (\<lambda>updates updateLedger w. (Inr (), w)),
      notificationsSend = (\<lambda>ns w. (Inr (), w)),
      metricsTimerRecord = (\<lambda>name tags v w. (Inr (), w)),
      tournamentCreate = (\<lambda>req w. (Inr (), w)),
      Date_now = clock\<rparr>"

definition demo_sys :: "demo_world sys" where
  "demo_sys = \<lparr>world = \<lparr>clock = 0, bucket = None\<rparr>, calls = []\<rparr>"

text \<open>Parsed payloads: the empty payload is not JSON.\<close>

definition demo_parse_bucket :: "string \<Rightarrow> js_error + bucket_message" where
  "demo_parse_bucket payload =
     (if payload = [] then Inl SyntaxError
      else Inr \<lparr>bm_id = Some ''live_event_1'', bm_limit = Some 32\<rparr>)"

definition demo_parse_create :: "string \<Rightarrow> js_error + create_message" where
  "demo_parse_create payload =
     (if payload = [] then Inl SyntaxError
      else Inr \<lparr>cm_id = Some ''live_event_1'', cm_duration = Some 259200,
                cm_start_time = Some 0, cm_rewards = Some sample_rewards\<rparr>)"

text \<open>A call of \<^verbatim>\<open>getBucketedTournamentRpc\<close> by the player \<^verbatim>\<open>player\<close>, with the sampler
  drawing from \<open>users\<close>.\<close>

definition demo_bucket_call ::
  "user list \<Rightarrow> demo_world sys \<Rightarrow> (js_error + leaderboard_record_list) \<times> demo_world sys" where
  "demo_bucket_call users s =
     getBucketedTournamentRpc demo_parse_bucket \<lparr>ctx_userId = Some ''player''\<rparr>
       (demo_nk users (Some sample_rewards)) ''{}'' s"

text \<open>A server with two registered users, one of them the requesting player.\<close>

definition two_users :: "user list" where
  "two_users = [\<lparr>userId = ''player''\<rparr>, \<lparr>userId = ''u01''\<rparr>]"

text \<open>Every amount of a batch of wallet updates is an integer.\<close>

definition integral_updates :: "wallet_update list \<Rightarrow> bool" where
  "integral_updates updates \<longleftrightarrow> (\<forall>u \<in> set updates. coins (changeset u) \<in> \<int>)"

text \<open>Collaborators whose ledger rejects every batch.\<close>

definition failing_wallet_nk :: "reward_table option \<Rightarrow> demo_world nakama" where
  "failing_wallet_nk rewards =
     (demo_nk demo_users rewards)
       \<lparr>walletsUpdate := (\<lambda>updates updateLedger w. (Inl (GoError ''wallet''), w))\<rparr>"

text \<open>The records of a list up to and including the first one whose decision throws
  (all of them when none throws).\<close>

definition through_first_throw ::
  "reward_table \<Rightarrow> leaderboard_record list \<Rightarrow> leaderboard_record list" where
  "through_first_throw rewards rs =
     takeWhile (no_throw rewards) rs @ take 1 (dropWhile (no_throw rewards) rs)"

section \<open>Properties of the reward lookup\<close>

lemma Math_round_nearest: "\<bar>Math_round x - x\<bar> \<le> 1 / 2"
  unfolding Math_round_def by linarith

lemma Math_round_Ints: "Math_round x \<in> \<int>"
  unfolding Math_round_def by simp

lemma Math_round_eqI:
  assumes "of_int k - 1 / 2 \<le> x" and "x < of_int k + 1 / 2"
  shows "Math_round x = of_int k"
proof -
  have "\<lfloor>x + 1 / 2\<rfloor> = k"
    by (rule floor_unique) (use assms in simp_all)
  then show ?thesis by (simp add: Math_round_def)
qed

lemma Math_round_of_int: "Math_round (of_int k) = of_int k"
  by (rule Math_round_eqI) simp_all

lemma Math_round_numeral: "Math_round (numeral n) = numeral n"
  using Math_round_of_int [of "numeral n"] by simp

lemma round_tier_Some:
  "rewards tier = Some e \<Longrightarrow>
   round_tier rewards tier = Inr (Some \<lparr>coins = Math_round (coins e)\<rparr>)"
  by (simp add: round_tier_def tier_coins_def)

lemma round_tier_None: "rewards tier = None \<Longrightarrow> round_tier rewards tier = Inl TypeError"
  by (simp add: round_tier_def tier_coins_def)

text \<open>
  Claim C2.  With score 0 the lookup returns no reward, whatever the table and the rank.
  With another score it returns the rounded amount of the table's \<open>first\<close> tier for rank
  1, of \<open>second\<close> for rank 2, of \<open>third\<close> for rank 3 and of \<open>rest\<close> for every rank from 4
  on; the rounded amount is an integer at distance at most one half from the configured
  amount.
\<close>

theorem getReward_tier_table:
  "getReward rewards rnk 0 = Inr None \<and>
   (sc \<noteq> 0 \<longrightarrow>
      (\<forall>e. rewards ''first'' = Some e \<longrightarrow>
         getReward rewards 1 sc = Inr (Some \<lparr>coins = Math_round (coins e)\<rparr>)) \<and>
      (\<forall>e. rewards ''second'' = Some e \<longrightarrow>
         getReward rewards 2 sc = Inr (Some \<lparr>coins = Math_round (coins e)\<rparr>)) \<and>
      (\<forall>e. rewards ''third'' = Some e \<longrightarrow>
         getReward rewards 3 sc = Inr (Some \<lparr>coins = Math_round (coins e)\<rparr>)) \<and>
      (\<forall>e. 4 \<le> rnk \<longrightarrow> rewards ''rest'' = Some e \<longrightarrow>
         getReward rewards rnk sc = Inr (Some \<lparr>coins = Math_round (coins e)\<rparr>))) \<and>
   (\<forall>c. Math_round c \<in> \<int> \<and> \<bar>Math_round c - c\<bar> \<le> 1 / 2)"
proof (intro conjI impI allI)
  show "getReward rewards rnk 0 = Inr None"
    by (simp add: getReward_def)
next
  fix c show "Math_round c \<in> \<int>" by (rule Math_round_Ints)
next
  fix c show "\<bar>Math_round c - c\<bar> \<le> 1 / 2" by (rule Math_round_nearest)
qed (simp_all add: getReward_def round_tier_Some)

theorem getReward_tier_table_witness:
  "getReward sample_rewards 9 0 = Inr None \<and>
   getReward sample_rewards 1 40 = Inr (Some \<lparr>coins = 250\<rparr>) \<and>
   getReward sample_rewards 2 40 = Inr (Some \<lparr>coins = 200\<rparr>) \<and>
   getReward sample_rewards 3 40 = Inr (Some \<lparr>coins = 150\<rparr>) \<and>
   getReward sample_rewards 9 40 = Inr (Some \<lparr>coins = 50\<rparr>)"
  using getReward_tier_table [of sample_rewards 9 40]
  by (simp add: sample_rewards_def Math_round_numeral)

text \<open>
  Claim C8.  When the score is not 0 and the table omits the tier that the rank maps to,
  the lookup throws a TypeError (the read of \<^verbatim>\<open>coins\<close> on \<^verbatim>\<open>undefined\<close>): it neither
  returns \<^verbatim>\<open>null\<close> nor a reward of 0.
\<close>

theorem getReward_missing_tier:
  "sc \<noteq> 0 \<Longrightarrow>
   rewards (if rnk = 1 then ''first'' else if rnk = 2 then ''second''
            else if rnk = 3 then ''third'' else ''rest'') = None \<Longrightarrow>
   getReward rewards rnk sc = Inl TypeError"
  by (simp add: getReward_def round_tier_None split: if_splits)

theorem getReward_missing_tier_witness:
  "getReward first_only_rewards 2 30 = Inl TypeError \<and>
   getReward first_only_rewards 3 10 = Inl TypeError \<and>
   getReward first_only_rewards 4 5 = Inl TypeError"
  using getReward_missing_tier [of 30 first_only_rewards 2]
    getReward_missing_tier [of 10 first_only_rewards 3]
    getReward_missing_tier [of 5 first_only_rewards 4]
  by (simp add: first_only_rewards_def)

text \<open>
  Claim C10.  With a score other than 0, every rank that is not 1, 2 or 3 (rank 0 and
  the negative ranks included) gets the rounded amount of the \<open>rest\<close> tier.
\<close>

theorem getReward_default_rest:
  "sc \<noteq> 0 \<Longrightarrow> rnk \<notin> {1, 2, 3} \<Longrightarrow> rewards ''rest'' = Some e \<Longrightarrow>
   getReward rewards rnk sc = Inr (Some \<lparr>coins = Math_round (coins e)\<rparr>)"
  by (simp add: getReward_def round_tier_Some)

theorem getReward_default_rest_witness:
  "getReward sample_rewards 0 40 = Inr (Some \<lparr>coins = 50\<rparr>) \<and>
   getReward sample_rewards (- 5) 40 = Inr (Some \<lparr>coins = 50\<rparr>) \<and>
   getReward sample_rewards 4 (- 7) = Inr (Some \<lparr>coins = 50\<rparr>)"
  using getReward_default_rest [of 40 0 sample_rewards "\<lparr>coins = 50\<rparr>"]
    getReward_default_rest [of 40 "- 5" sample_rewards "\<lparr>coins = 50\<rparr>"]
    getReward_default_rest [of "- 7" 4 sample_rewards "\<lparr>coins = 50\<rparr>"]
  by (simp add: sample_rewards_def Math_round_numeral)

section \<open>Properties of the sort\<close>

lemma length_assign_ranks [simp]: "length (assign_ranks xs) = length xs"
  by (simp add: assign_ranks_def)

lemma nth_assign_ranks:
  "i < length xs \<Longrightarrow> assign_ranks xs ! i = (xs ! i)\<lparr>rank := int i + 1\<rparr>"
  by (simp add: assign_ranks_def nth_enumerate_eq)

lemma map_score_assign_ranks: "map score (assign_ranks xs) = map score xs"
  by (rule nth_equalityI) (simp_all add: nth_assign_ranks)

lemma map_ownerId_assign_ranks: "map ownerId (assign_ranks xs) = map ownerId xs"
  by (rule nth_equalityI) (simp_all add: nth_assign_ranks)

lemma map_rank_assign_ranks: "map rank (assign_ranks xs) = map int [1..<Suc (length xs)]"
  by (rule nth_equalityI) (simp_all add: nth_assign_ranks del: upt_Suc)

lemma assign_ranks_idem: "assign_ranks (assign_ranks xs) = assign_ranks xs"
  by (rule nth_equalityI) (simp_all add: nth_assign_ranks)

lemma neg_score_assign_ranks:
  "map (\<lambda>r. - score r) (assign_ranks xs) = map (\<lambda>r. - score r) xs"
  by (rule nth_equalityI) (simp_all add: nth_assign_ranks)

lemma owner_score_assign_ranks:
  "map (\<lambda>r. (ownerId r, score r)) (assign_ranks xs) = map (\<lambda>r. (ownerId r, score r)) xs"
  by (rule nth_equalityI) (simp_all add: nth_assign_ranks)

lemma sort_desc_sorted: "sorted (map (\<lambda>r. - score r) (sort_desc xs))"
  by (simp add: sort_desc_def)

lemma sort_desc_id: "sorted (map (\<lambda>r. - score r) xs) \<Longrightarrow> sort_desc xs = xs"
  by (simp add: sort_desc_def sort_key_id_if_sorted)

lemma sort_desc_assign_sorted:
  "sort_desc (assign_ranks (sort_desc xs)) = assign_ranks (sort_desc xs)"
  by (rule sort_desc_id) (simp add: neg_score_assign_ranks sort_desc_sorted)

lemma sorted_desc_assign_sort:
  "sorted_wrt (\<lambda>a b. score b \<le> score a) (assign_ranks (sort_desc xs))"
proof -
  have "sorted (map (\<lambda>r. - score r) (assign_ranks (sort_desc xs)))"
    by (simp add: neg_score_assign_ranks sort_desc_sorted)
  then show ?thesis by (simp add: sorted_map)
qed

lemma mset_owner_score_sort:
  "mset (map (\<lambda>r. (ownerId r, score r)) (assign_ranks (sort_desc xs))) =
   mset (map (\<lambda>r. (ownerId r, score r)) xs)"
proof -
  have "mset (map (\<lambda>r. (ownerId r, score r)) (sort_desc xs)) =
      image_mset (\<lambda>r. (ownerId r, score r)) (mset (sort_desc xs))"
    by simp
  also have "mset (sort_desc xs) = mset xs"
    by (simp add: sort_desc_def)
  finally show ?thesis by (simp add: owner_score_assign_ranks)
qed

text \<open>
  Claim C6.  \<^verbatim>\<open>SortRecords\<close> is idempotent.  On a sequence that is already sorted by
  descending score it keeps the order and gives each record its position as rank.  On
  every sequence of N records the result has N records, in descending order of score,
  the same owners and scores as the input, and the ranks 1, 2, ..., N in this order.
\<close>

theorem SortRecords_idempotent_ranks:
  "SortRecords (SortRecords recs) = SortRecords recs \<and>
   (\<forall>rs. sorted_wrt (\<lambda>a b. score b \<le> score a) rs \<longrightarrow>
      SortRecords (Some rs) = Some (assign_ranks rs) \<and>
      map ownerId (assign_ranks rs) = map ownerId rs \<and>
      map score (assign_ranks rs) = map score rs) \<and>
   (\<forall>rs. \<exists>out. SortRecords (Some rs) = Some out \<and> length out = length rs \<and>
      map rank out = map int [1..<Suc (length rs)] \<and>
      sorted_wrt (\<lambda>a b. score b \<le> score a) out \<and>
      mset (map (\<lambda>r. (ownerId r, score r)) out) = mset (map (\<lambda>r. (ownerId r, score r)) rs))"
proof (intro conjI allI impI)
  show "SortRecords (SortRecords recs) = SortRecords recs"
    by (cases recs) (simp_all add: SortRecords_def sort_desc_assign_sorted assign_ranks_idem)
next
  fix rs :: "leaderboard_record list"
  assume "sorted_wrt (\<lambda>a b. score b \<le> score a) rs"
  then show "SortRecords (Some rs) = Some (assign_ranks rs)"
    by (simp add: SortRecords_def sort_desc_id sorted_map)
next
  fix rs show "map ownerId (assign_ranks rs) = map ownerId rs"
    by (rule map_ownerId_assign_ranks)
next
  fix rs show "map score (assign_ranks rs) = map score rs"
    by (rule map_score_assign_ranks)
next
  fix rs
  show "\<exists>out. SortRecords (Some rs) = Some out \<and> length out = length rs \<and>
      map rank out = map int [1..<Suc (length rs)] \<and>
      sorted_wrt (\<lambda>a b. score b \<le> score a) out \<and>
      mset (map (\<lambda>r. (ownerId r, score r)) out) = mset (map (\<lambda>r. (ownerId r, score r)) rs)"
    using sorted_desc_assign_sort [of rs] mset_owner_score_sort [of rs]
    by (simp add: SortRecords_def map_rank_assign_ranks sort_desc_def del: upt_Suc)
qed

theorem SortRecords_idempotent_ranks_witness:
  "sorted_wrt (\<lambda>a b. score b \<le> score a) [alice\<lparr>rank := 12\<rparr>, bob\<lparr>rank := 40\<rparr>, carol\<lparr>rank := 41\<rparr>] \<and>
   SortRecords (Some [alice\<lparr>rank := 12\<rparr>, bob\<lparr>rank := 40\<rparr>, carol\<lparr>rank := 41\<rparr>]) =
     Some [alice, bob, carol] \<and>
   SortRecords (Some [carol, alice, bob]) = Some [alice, bob, carol] \<and>
   SortRecords (SortRecords (Some [carol, alice, bob])) = Some [alice, bob, carol]"
  using SortRecords_idempotent_ranks [of "Some [carol, alice, bob]"]
  by (simp add: SortRecords_def sort_desc_def assign_ranks_def alice_def bob_def carol_def
      enumerate_eq_zip)

section \<open>Running the programs\<close>

lemmas prog_defs = Let_def return_prog_def throw_prog_def bind_prog_def try_catch_def emit_def
  call_nk_def logger_debug_def logger_error_def date_now_def

lemmas nk_defs = nk_storageRead_def nk_storageWrite_def nk_tournamentsGetId_def
  nk_usersGetRandom_def nk_tournamentRecordsList_def nk_walletsUpdate_def
  nk_notificationsSend_def nk_metricsTimerRecord_def nk_tournamentCreate_def

lemmas obs_defs = visited_def listings_def listed_members_def sampled_def
  storage_writes_def created_def wallet_batches_def written_members_def

lemmas demo_defs = demo_nk_def demo_sys_def demo_tournament_def demo_users_def demo_page_def
  demo_parse_bucket_def demo_parse_create_def alice_def bob_def carol_def dave_def

section \<open>Properties of the scan\<close>

lemma visited_append [simp]: "visited (a @ b) = visited a @ visited b"
  by (simp add: visited_def)

lemma visited_map_Visit [simp]: "visited (map Visit rs) = rs"
  by (induction rs) (simp_all add: visited_def)

lemma visited_Nil [simp]: "visited [] = []"
  by (simp add: visited_def)

lemma visited_Cons_request [simp]: "visited (scan_request t reset c # tr) = visited tr"
  by (simp add: visited_def scan_request_def)

lemma listings_Nil [simp]: "listings [] = []"
  by (simp add: listings_def)

lemma listings_append [simp]: "listings (a @ b) = listings a @ listings b"
  by (simp add: listings_def)

lemma listings_map_Visit [simp]: "listings (map Visit rs) = []"
  by (induction rs) (simp_all add: listings_def)

lemma listings_Cons_request [simp]:
  "listings (scan_request t reset c # tr) = scan_request t reset c # listings tr"
  by (simp add: listings_def scan_request_def)

lemma scan_event_request [simp]: "scan_event t reset (scan_request t reset c)"
  by (simp add: scan_event_def scan_request_def)

lemma scan_event_Visit [simp]: "scan_event t reset (Visit r)"
  by (simp add: scan_event_def)

text \<open>The only value that a decision throws is the TypeError of the missing tier.\<close>

lemma getReward_throws_TypeError: "getReward rewards rnk sc = Inl e \<Longrightarrow> e = TypeError"
  by (auto simp: getReward_def round_tier_def tier_coins_def split: if_splits option.splits)

lemma through_first_throw_Nil [simp]: "through_first_throw rewards [] = []"
  by (simp add: through_first_throw_def)

lemma through_first_throw_Cons:
  "through_first_throw rewards (r # rs) =
     (if no_throw rewards r then r # through_first_throw rewards rs else [r])"
  by (simp add: through_first_throw_def)

lemma through_first_throw_all:
  assumes "\<forall>r \<in> set rs. no_throw rewards r"
  shows "through_first_throw rewards rs = rs"
  using assms by (induction rs) (simp_all add: through_first_throw_Cons)

lemma through_first_throw_take:
  "through_first_throw rewards rs =
     take (Suc (length (takeWhile (no_throw rewards) rs))) rs"
  using take_append [of "Suc (length (takeWhile (no_throw rewards) rs))"
      "takeWhile (no_throw rewards) rs" "dropWhile (no_throw rewards) rs"]
  by (simp add: through_first_throw_def)

lemma through_first_throw_stop:
  assumes "\<not> (\<forall>r \<in> set rs. no_throw rewards r)"
  shows "\<exists>k < length rs. (\<forall>i < k. no_throw rewards (rs ! i)) \<and>
     \<not> no_throw rewards (rs ! k) \<and> through_first_throw rewards rs = take (Suc k) rs"
proof -
  let ?k = "length (takeWhile (no_throw rewards) rs)"
  have lt: "?k < length rs"
    using assms by (induction rs) auto
  have stop: "\<not> no_throw rewards (rs ! ?k)"
    using lt by (rule nth_length_takeWhile)
  have before: "no_throw rewards (rs ! i)" if "i < ?k" for i
  proof -
    have "takeWhile (no_throw rewards) rs ! i \<in> set (takeWhile (no_throw rewards) rs)"
      using that by (rule nth_mem)
    then have "no_throw rewards (takeWhile (no_throw rewards) rs ! i)"
      by (rule set_takeWhileD [THEN conjunct2])
    then show ?thesis using that by (simp add: takeWhile_nth)
  qed
  from lt before stop through_first_throw_take [of rewards rs] show ?thesis by blast
qed

lemma through_first_throw_append_ok:
  assumes "\<forall>r \<in> set xs. no_throw rewards r"
  shows "through_first_throw rewards (xs @ ys) = xs @ through_first_throw rewards ys"
  using assms by (simp add: through_first_throw_def takeWhile_append2 dropWhile_append2)

lemma through_first_throw_append_stop:
  assumes "\<not> (\<forall>r \<in> set xs. no_throw rewards r)"
  shows "through_first_throw rewards (xs @ ys) = through_first_throw rewards xs"
proof -
  from assms obtain x where x: "x \<in> set xs" "\<not> no_throw rewards x" by blast
  then have "dropWhile (no_throw rewards) xs \<noteq> []"
    by (auto simp: dropWhile_eq_Nil_conv)
  then have "take 1 (dropWhile (no_throw rewards) xs @ ys) = take 1 (dropWhile (no_throw rewards) xs)"
    by (cases "dropWhile (no_throw rewards) xs") simp_all
  with x show ?thesis
    by (simp add: through_first_throw_def takeWhile_append1 dropWhile_append1)
qed

text \<open>The callback on one record, and \<^verbatim>\<open>forEach\<close> on a list of records.\<close>

lemma reward_record_run:
  "reward_record t rewards r acc s =
     (if no_throw rewards r then Inr (decided t rewards r acc) else Inl TypeError,
      s\<lparr>calls := calls s @ [Visit r]\<rparr>)"
proof (cases "getReward rewards (rank r) (score r)")
  case (Inl e)
  then have "e = TypeError" by (rule getReward_throws_TypeError)
  with Inl show ?thesis
    by (simp add: reward_record_def no_throw_def prog_defs)
next
  case (Inr v)
  then show ?thesis
    by (cases v) (simp_all add: reward_record_def no_throw_def decided_def prog_defs)
qed

lemma reward_record_state:
  "snd (reward_record t rewards r acc s) = s\<lparr>calls := calls s @ [Visit r]\<rparr>"
  by (simp add: reward_record_run)

lemma forEach_run:
  "forEach_prog (reward_record t rewards) rs acc s =
     (if \<forall>r \<in> set rs. no_throw rewards r then Inr (decided_all t rewards rs acc)
      else Inl TypeError,
      s\<lparr>calls := calls s @ map Visit (through_first_throw rewards rs)\<rparr>)"
proof (induction rs arbitrary: acc s)
  case Nil
  show ?case
    by (simp add: return_prog_def decided_all_def)
next
  case (Cons r rs)
  show ?case
  proof (cases "no_throw rewards r")
    case True
    have "forEach_prog (reward_record t rewards) (r # rs) acc s =
        forEach_prog (reward_record t rewards) rs (decided t rewards r acc)
          (s\<lparr>calls := calls s @ [Visit r]\<rparr>)"
      using True by (simp add: bind_prog_def reward_record_run)
    also have "\<dots> =
        (if \<forall>r \<in> set rs. no_throw rewards r
         then Inr (decided_all t rewards rs (decided t rewards r acc))
         else Inl TypeError,
         s\<lparr>calls := calls s @ [Visit r] @ map Visit (through_first_throw rewards rs)\<rparr>)"
      by (simp add: Cons.IH)
    finally show ?thesis
      using True by (simp add: decided_all_def through_first_throw_Cons)
  next
    case False
    then show ?thesis
      by (simp add: bind_prog_def reward_record_run through_first_throw_Cons)
  qed
qed

lemma forEach_state:
  "\<exists>k. snd (forEach_prog (reward_record t rewards) rs acc s) =
     s\<lparr>calls := calls s @ map Visit (take k rs)\<rparr>"
proof -
  have "snd (forEach_prog (reward_record t rewards) rs acc s) =
      s\<lparr>calls := calls s @
        map Visit (take (Suc (length (takeWhile (no_throw rewards) rs))) rs)\<rparr>"
    by (simp add: forEach_run through_first_throw_take)
  then show ?thesis by blast
qed

text \<open>One turn of the loop at a cursor where the listing returns a page.\<close>

lemma scan_page_run:
  assumes "tournamentRecordsList nk (Some (tournament_id t)) [] (Some 100) (Some c)
      (Some reset) (world s) = (Inr p, w')"
  shows "scan_page nk t rewards reset c acc s =
     (if \<forall>r \<in> set (page_records p). no_throw rewards r
      then Inr (nextCursor p, decided_all t rewards (page_records p) acc)
      else Inl TypeError,
      \<lparr>world = w',
       calls = calls s @
         scan_request t reset c # map Visit (through_first_throw rewards (page_records p))\<rparr>)"
  using assms
  by (simp add: scan_page_def nk_tournamentRecordsList_def call_nk_def bind_prog_def
      return_prog_def forEach_run page_records_def [symmetric] scan_request_def)

text \<open>The loop over a listing that is exhausted after finitely many pages.\<close>

lemma scan_records_listed:
  "listed_pages nk t reset n cursor (world s) = Some ps \<Longrightarrow>
    \<exists>s' tr.
      scan_records nk t rewards reset cursor acc s =
        Some (if \<forall>r \<in> set (leaderboard_of ps). no_throw rewards r
              then Inr (decided_all t rewards (leaderboard_of ps) acc)
              else Inl TypeError, s') \<and>
      calls s' = calls s @ tr \<and>
      (\<forall>ev \<in> set tr. scan_event t reset ev) \<and>
      visited tr = through_first_throw rewards (leaderboard_of ps) \<and>
      ((\<forall>r \<in> set (leaderboard_of ps). no_throw rewards r) \<longrightarrow>
         listings tr = map (scan_request t reset) (map fst ps)) \<and>
      (\<exists>m. listings tr = map (scan_request t reset) (map fst (take m ps)))"
proof (induction n arbitrary: cursor ps acc s)
  case 0
  then have "cursor = None" "ps = []" by (cases cursor; simp)+
  then show ?case
    by (simp add: scan_records.simps leaderboard_of_def decided_all_def)
next
  case (Suc n)
  show ?case
  proof (cases cursor)
    case None
    with Suc.prems have "ps = []" by simp
    with None show ?thesis
      by (simp add: scan_records.simps leaderboard_of_def decided_all_def)
  next
    case (Some c)
    obtain r0 w' where l: "tournamentRecordsList nk (Some (tournament_id t)) [] (Some 100)
        (Some c) (Some reset) (world s) = (r0, w')"
      by (cases "tournamentRecordsList nk (Some (tournament_id t)) [] (Some 100)
        (Some c) (Some reset) (world s)")
    from Suc.prems Some l obtain p ps' where
      r0: "r0 = Inr p" and ps: "ps = (c, p) # ps'" and
      rest: "listed_pages nk t reset n (nextCursor p) w' = Some ps'"
      by (cases r0) auto
    let ?rs = "page_records p"
    let ?s1 = "\<lparr>world = w',
       calls = calls s @ scan_request t reset c # map Visit (through_first_throw rewards ?rs)\<rparr>"
    have lb: "leaderboard_of ps = ?rs @ leaderboard_of ps'"
      by (simp add: ps leaderboard_of_def)
    have page: "scan_page nk t rewards reset c acc s =
       (if \<forall>r \<in> set ?rs. no_throw rewards r
        then Inr (nextCursor p, decided_all t rewards ?rs acc)
        else Inl TypeError, ?s1)"
      using l r0 by (simp add: scan_page_run)
    show ?thesis
    proof (cases "\<forall>r \<in> set ?rs. no_throw rewards r")
      case False
      have run: "scan_records nk t rewards reset cursor acc s = Some (Inl TypeError, ?s1)"
        using Some page False by (subst scan_records.simps) simp
      have all: "\<not> (\<forall>r \<in> set (leaderboard_of ps). no_throw rewards r)"
        using False by (auto simp: lb)
      let ?tr = "scan_request t reset c # map Visit (through_first_throw rewards ?rs)"
      show ?thesis
      proof (intro exI conjI)
        show "scan_records nk t rewards reset cursor acc s =
            Some (if \<forall>r \<in> set (leaderboard_of ps). no_throw rewards r
                  then Inr (decided_all t rewards (leaderboard_of ps) acc)
                  else Inl TypeError, ?s1)"
          using run all by simp
        show "calls ?s1 = calls s @ ?tr" by simp
        show "\<forall>ev \<in> set ?tr. scan_event t reset ev" by auto
        show "visited ?tr = through_first_throw rewards (leaderboard_of ps)"
          using False by (simp add: lb through_first_throw_append_stop)
        show "(\<forall>r \<in> set (leaderboard_of ps). no_throw rewards r) \<longrightarrow>
            listings ?tr = map (scan_request t reset) (map fst ps)"
          using all by blast
        show "listings ?tr = map (scan_request t reset) (map fst (take 1 ps))"
          by (simp add: ps)
      qed
    next
      case True
      let ?acc1 = "decided_all t rewards ?rs acc"
      have tf: "through_first_throw rewards ?rs = ?rs"
        using True by (rule through_first_throw_all)
      have w1: "world ?s1 = w'" by simp
      from Suc.IH [of "nextCursor p" ?s1 ps' ?acc1] rest w1 obtain s' tr where
        run': "scan_records nk t rewards reset (nextCursor p) ?acc1 ?s1 =
          Some (if \<forall>r \<in> set (leaderboard_of ps'). no_throw rewards r
                then Inr (decided_all t rewards (leaderboard_of ps') ?acc1)
                else Inl TypeError, s')" and
        cs: "calls s' = calls ?s1 @ tr" and
        evs: "\<forall>ev \<in> set tr. scan_event t reset ev" and
        vis: "visited tr = through_first_throw rewards (leaderboard_of ps')" and
        lst: "(\<forall>r \<in> set (leaderboard_of ps'). no_throw rewards r) \<longrightarrow>
           listings tr = map (scan_request t reset) (map fst ps')" and
        pre: "\<exists>m. listings tr = map (scan_request t reset) (map fst (take m ps'))"
        by auto
      from pre obtain m where
        "listings tr = map (scan_request t reset) (map fst (take m ps'))" by blast
      then have pre': "listings (scan_request t reset c # map Visit ?rs @ tr) =
          map (scan_request t reset) (map fst (take (Suc m) ps))"
        by (simp add: ps)
      let ?tr = "scan_request t reset c # map Visit ?rs @ tr"
      have all: "(\<forall>r \<in> set (leaderboard_of ps). no_throw rewards r) \<longleftrightarrow>
          (\<forall>r \<in> set (leaderboard_of ps'). no_throw rewards r)"
        using True by (auto simp: lb)
      have dec: "decided_all t rewards (leaderboard_of ps) acc =
          decided_all t rewards (leaderboard_of ps') ?acc1"
        by (simp add: lb decided_all_def)
      have "scan_records nk t rewards reset cursor acc s =
          scan_records nk t rewards reset (nextCursor p) ?acc1 ?s1"
        using Some page True by (subst scan_records.simps) simp
      then have run: "scan_records nk t rewards reset cursor acc s =
          Some (if \<forall>r \<in> set (leaderboard_of ps). no_throw rewards r
                then Inr (decided_all t rewards (leaderboard_of ps) acc)
                else Inl TypeError, s')"
        using run' all dec by simp
      have c: "calls s' = calls s @ ?tr"
        using cs tf by simp
      have e: "\<forall>ev \<in> set ?tr. scan_event t reset ev"
        using evs by auto
      have v: "visited ?tr = through_first_throw rewards (leaderboard_of ps)"
        using True vis by (simp add: lb through_first_throw_append_ok)
      have li: "(\<forall>r \<in> set (leaderboard_of ps). no_throw rewards r) \<longrightarrow>
          listings ?tr = map (scan_request t reset) (map fst ps)"
        using lst all by (simp add: ps)
      from run c e v li pre' show ?thesis by blast
    qed
  qed
qed

text \<open>What holds of every run of the scan loop that returns, whatever the collaborators
  do: its events are visits and listing requests of the scan, and the wallet updates it
  collects have integral amounts.\<close>

lemma getReward_Ints: "getReward rewards rnk sc = Inr (Some rw) \<Longrightarrow> coins rw \<in> \<int>"
  by (auto simp: getReward_def round_tier_def tier_coins_def Math_round_Ints
      split: if_splits option.splits)

lemma reward_record_integral:
  "integral_updates (walletUpdates acc) \<Longrightarrow>
   fst (reward_record t rewards r acc s) = Inr acc' \<Longrightarrow> integral_updates (walletUpdates acc')"
  using getReward_Ints [of rewards "rank r" "score r"]
  by (auto simp: reward_record_def push_reward_def prog_defs integral_updates_def
      split: sum.splits option.splits)

lemma forEach_integral:
  "integral_updates (walletUpdates acc) \<Longrightarrow>
   fst (forEach_prog (reward_record t rewards) rs acc s) = Inr acc' \<Longrightarrow>
   integral_updates (walletUpdates acc')"
proof (induction rs arbitrary: acc s)
  case Nil
  then show ?case by (simp add: return_prog_def)
next
  case (Cons r rs)
  obtain res s1 where step: "reward_record t rewards r acc s = (res, s1)"
    by (cases "reward_record t rewards r acc s")
  show ?case
  proof (cases res)
    case (Inl e)
    with Cons.prems step show ?thesis by (simp add: bind_prog_def)
  next
    case (Inr acc1)
    with step Cons.prems(1) have "integral_updates (walletUpdates acc1)"
      using reward_record_integral [of acc t rewards r s acc1] by simp
    moreover have "fst (forEach_prog (reward_record t rewards) rs acc1 s1) = Inr acc'"
      using Cons.prems(2) step Inr by (simp add: bind_prog_def)
    ultimately show ?thesis by (rule Cons.IH)
  qed
qed

lemma scan_page_general:
  "\<exists>tr. calls (snd (scan_page nk t rewards reset c acc s)) = calls s @ tr \<and>
     (\<forall>ev \<in> set tr. scan_event t reset ev) \<and>
     (integral_updates (walletUpdates acc) \<longrightarrow>
        (\<forall>cursor' acc'. fst (scan_page nk t rewards reset c acc s) = Inr (cursor', acc') \<longrightarrow>
           integral_updates (walletUpdates acc')))"
proof -
  let ?ev = "TournamentRecordsList (Some (tournament_id t)) [] (Some 100) (Some c) (Some reset)"
  have ev: "scan_event t reset ?ev" by (simp add: scan_event_def)
  obtain r0 w1 where l: "tournamentRecordsList nk (Some (tournament_id t)) [] (Some 100) (Some c)
      (Some reset) (world s) = (r0, w1)"
    by (cases "tournamentRecordsList nk (Some (tournament_id t)) [] (Some 100) (Some c)
      (Some reset) (world s)")
  define s1 where "s1 = \<lparr>world = w1, calls = calls s @ [?ev]\<rparr>"
  show ?thesis
  proof (cases r0)
    case (Inl e)
    with l have "scan_page nk t rewards reset c acc s = (Inl e, s1)"
      by (simp add: scan_page_def nk_tournamentRecordsList_def prog_defs s1_def)
    then show ?thesis using ev by (simp add: s1_def)
  next
    case (Inr results)
    let ?rs = "case records results of None \<Rightarrow> [] | Some rs \<Rightarrow> rs"
    obtain fres s2 where f: "forEach_prog (reward_record t rewards) ?rs acc s1 = (fres, s2)"
      by (cases "forEach_prog (reward_record t rewards) ?rs acc s1")
    have page: "scan_page nk t rewards reset c acc s =
        (case fres of Inl e \<Rightarrow> (Inl e, s2) | Inr acc' \<Rightarrow> (Inr (nextCursor results, acc'), s2))"
      using l Inr f
      by (simp add: scan_page_def nk_tournamentRecordsList_def prog_defs s1_def split: sum.splits)
    from forEach_state [of t rewards ?rs acc s1] f obtain k where
      "s2 = s1\<lparr>calls := calls s1 @ map Visit (take k ?rs)\<rparr>" by auto
    then have c2: "calls s2 = calls s @ ?ev # map Visit (take k ?rs)"
      by (simp add: s1_def)
    have evs: "\<forall>e \<in> set (?ev # map Visit (take k ?rs)). scan_event t reset e"
      using ev by (auto simp: scan_event_def)
    have "integral_updates (walletUpdates acc) \<Longrightarrow> fres = Inr acc' \<Longrightarrow>
        integral_updates (walletUpdates acc')" for acc'
      using forEach_integral [of acc t rewards ?rs s1 acc'] f by simp
    with page c2 evs show ?thesis
      by (cases fres) auto
  qed
qed

lemma scan_records_general:
  assumes run: "scan_records nk t rewards reset cursor acc s = Some y"
  shows "(\<exists>tr. calls (snd y) = calls s @ tr \<and> (\<forall>ev \<in> set tr. scan_event t reset ev)) \<and>
   (integral_updates (walletUpdates acc) \<longrightarrow>
      (\<forall>acc'. fst y = Inr acc' \<longrightarrow> integral_updates (walletUpdates acc')))"
proof -
  define P where "P = (\<lambda>(t :: tournament) (reset :: int) (acc :: batches) (s :: 'a sys)
      (y :: (js_error + batches) \<times> 'a sys).
    (\<exists>tr. calls (snd y) = calls s @ tr \<and> (\<forall>ev \<in> set tr. scan_event t reset ev)) \<and>
    (integral_updates (walletUpdates acc) \<longrightarrow>
       (\<forall>acc'. fst y = Inr acc' \<longrightarrow> integral_updates (walletUpdates acc'))))"
  have PI: "P t reset acc s y"
    if "calls (snd y) = calls s @ tr" and "\<forall>ev \<in> set tr. scan_event t reset ev"
      and "\<And>acc'. integral_updates (walletUpdates acc) \<Longrightarrow> fst y = Inr acc' \<Longrightarrow>
        integral_updates (walletUpdates acc')"
    for t reset acc and s :: "'a sys" and y tr
    unfolding P_def using that by blast
  have PD: "\<exists>tr. calls (snd y) = calls s @ tr \<and> (\<forall>ev \<in> set tr. scan_event t reset ev)"
    and PD2: "integral_updates (walletUpdates acc) \<Longrightarrow> fst y = Inr acc' \<Longrightarrow>
        integral_updates (walletUpdates acc')"
    if "P t reset acc s y" for t reset acc and s :: "'a sys" and y acc'
    using that unfolding P_def by blast+
  have "P t reset acc s y"
  proof (rule scan_records.raw_induct
      [where P = "\<lambda>nk t rewards reset cursor acc s y. P t reset acc s y", OF _ run])
    fix scan :: "'a nakama \<Rightarrow> tournament \<Rightarrow> reward_table \<Rightarrow> int \<Rightarrow> string option \<Rightarrow> batches
        \<Rightarrow> 'a sys \<Rightarrow> ((js_error + batches) \<times> 'a sys) option"
    fix nk t rewards reset cursor acc s y
    assume IH: "\<And>nk t rewards reset cursor acc s y.
        scan nk t rewards reset cursor acc s = Some y \<Longrightarrow> P t reset acc s y"
    assume body: "(case cursor of
          None \<Rightarrow> Some (Inr acc, s)
        | Some c \<Rightarrow>
            (case scan_page nk t rewards reset c acc s of
               (Inl e, s') \<Rightarrow> Some (Inl e, s')
             | (Inr (cursor', acc'), s') \<Rightarrow> scan nk t rewards reset cursor' acc' s')) = Some y"
    show "P t reset acc s y"
    proof (cases cursor)
      case None
      with body have y: "y = (Inr acc, s)" by simp
      show ?thesis
        by (rule PI [where tr = "[]"]) (simp_all add: y)
    next
      case (Some c)
      obtain res1 s1 where pg: "scan_page nk t rewards reset c acc s = (res1, s1)"
        by (cases "scan_page nk t rewards reset c acc s")
      from scan_page_general [of nk t rewards reset c acc s] obtain tr1 where
        g1: "calls (snd (scan_page nk t rewards reset c acc s)) = calls s @ tr1" and
        g2: "\<forall>ev \<in> set tr1. scan_event t reset ev" and
        g3: "integral_updates (walletUpdates acc) \<longrightarrow>
          (\<forall>cursor' acc'. fst (scan_page nk t rewards reset c acc s) = Inr (cursor', acc') \<longrightarrow>
            integral_updates (walletUpdates acc'))"
        by blast
      have c1: "calls s1 = calls s @ tr1" using g1 pg by simp
      show ?thesis
      proof (cases res1)
        case (Inl e)
        from body Some pg Inl have y: "y = (Inl e, s1)" by simp
        show ?thesis
          by (rule PI [where tr = tr1]) (simp_all add: y c1 g2)
      next
        case (Inr pr)
        obtain cursor' acc1 where pr: "pr = (cursor', acc1)" by (cases pr)
        from body Some pg Inr pr have rec: "scan nk t rewards reset cursor' acc1 s1 = Some y"
          by simp
        have P1: "P t reset acc1 s1 y" using rec by (rule IH)
        from PD [OF P1] obtain tr2 where
          c2: "calls (snd y) = calls s1 @ tr2" and e2: "\<forall>ev \<in> set tr2. scan_event t reset ev"
          by blast
        have i1: "integral_updates (walletUpdates acc1)"
          if "integral_updates (walletUpdates acc)"
          using g3 that pg Inr pr by simp
        show ?thesis
        proof (rule PI [where tr = "tr1 @ tr2"])
          show "calls (snd y) = calls s @ tr1 @ tr2" using c1 c2 by simp
          show "\<forall>ev \<in> set (tr1 @ tr2). scan_event t reset ev" using g2 e2 by (simp add: ball_Un)
          fix acc'
          assume "integral_updates (walletUpdates acc)" and "fst y = Inr acc'"
          then show "integral_updates (walletUpdates acc')"
            using PD2 [OF P1] i1 by blast
        qed
      qed
    qed
  qed
  then show ?thesis unfolding P_def by simp
qed

section \<open>Properties of the RPCs\<close>

lemma create_denied:
  "truthy (ctx_userId ctx) \<Longrightarrow>
   serverCreateLiveEventRpc JSON_parse ctx nk payload s = (Inl errPermissionDenied, s)"
  by (simp add: serverCreateLiveEventRpc_def throw_prog_def)

lemma create_server_calls:
  assumes "\<not> truthy (ctx_userId ctx)"
  shows "created (new_calls s (snd (serverCreateLiveEventRpc JSON_parse ctx nk payload s))) =
     (case JSON_parse payload of Inl e \<Rightarrow> [] | Inr message \<Rightarrow> [create_request message])"
proof (cases "JSON_parse payload")
  case (Inl e)
  then show ?thesis
    using assms by (simp add: serverCreateLiveEventRpc_def prog_defs new_calls_def created_def)
next
  case (Inr message)
  obtain cres w1 where "tournamentCreate nk (create_request message) (world s) = (cres, w1)"
    by (cases "tournamentCreate nk (create_request message) (world s)")
  then show ?thesis
    using assms Inr
    by (cases cres)
      (simp_all add: serverCreateLiveEventRpc_def prog_defs nk_defs new_calls_def created_def
        create_request_def)
qed

text \<open>
  Claim C9.  Called with a user id in the context, \<^verbatim>\<open>serverCreateLiveEventRpc\<close> throws
  \<^verbatim>\<open>errPermissionDenied\<close> for every payload and leaves the state as it was: no
  collaborator is called and nothing is logged.  Called without one, it does not throw
  \<^verbatim>\<open>errPermissionDenied\<close>, and for a payload that parses it calls
  \<^verbatim>\<open>nk.tournamentCreate\<close> once, with the request built from the message.
\<close>

theorem createLiveEvent_permission:
  "(truthy (ctx_userId ctx) \<longrightarrow>
      serverCreateLiveEventRpc JSON_parse ctx nk payload s = (Inl errPermissionDenied, s) \<and>
      new_calls s (snd (serverCreateLiveEventRpc JSON_parse ctx nk payload s)) = []) \<and>
   (\<not> truthy (ctx_userId ctx) \<longrightarrow>
      fst (serverCreateLiveEventRpc JSON_parse ctx nk payload s) \<noteq> Inl errPermissionDenied \<and>
      created (new_calls s (snd (serverCreateLiveEventRpc JSON_parse ctx nk payload s))) =
        (case JSON_parse payload of Inl e \<Rightarrow> [] | Inr message \<Rightarrow> [create_request message]))"
  using create_denied [of ctx JSON_parse nk payload s]
    create_server_calls [of ctx s JSON_parse nk payload]
  by (auto simp: new_calls_def serverCreateLiveEventRpc_def prog_defs split: sum.splits prod.splits)

theorem createLiveEvent_permission_witness:
  "serverCreateLiveEventRpc demo_parse_create \<lparr>ctx_userId = Some ''player''\<rparr>
      (demo_nk demo_users None) ''{}'' demo_sys = (Inl errPermissionDenied, demo_sys) \<and>
   fst (serverCreateLiveEventRpc demo_parse_create \<lparr>ctx_userId = None\<rparr>
      (demo_nk demo_users None) ''{}'' demo_sys) = Inr success_json \<and>
   created (new_calls demo_sys (snd (serverCreateLiveEventRpc demo_parse_create
      \<lparr>ctx_userId = None\<rparr> (demo_nk demo_users None) ''{}'' demo_sys))) =
     [create_request \<lparr>cm_id = Some ''live_event_1'', cm_duration = Some 259200,
        cm_start_time = Some 0, cm_rewards = Some sample_rewards\<rparr>]"
  using createLiveEvent_permission [of "\<lparr>ctx_userId = Some ''player''\<rparr>" demo_parse_create
      "demo_nk demo_users None" "''{}''" demo_sys]
    createLiveEvent_permission [of "\<lparr>ctx_userId = None\<rparr>" demo_parse_create
      "demo_nk demo_users None" "''{}''" demo_sys]
  by (simp add: truthy_def demo_parse_create_def)
     (simp add: serverCreateLiveEventRpc_def truthy_def prog_defs nk_defs demo_nk_def
        demo_parse_create_def)

text \<open>The two branches of \<^verbatim>\<open>getBucketedTournamentRpc\<close>, for a call that reaches the
  decision: the user id is truthy, the payload parses, the storage read returns
  \<open>objects\<close> and the tournament lookup returns a tournament \<open>t\<close> first.\<close>

lemma bucketed_reuse:
  assumes uid: "ctx_userId ctx = Some uid" "uid \<noteq> []"
    and parse: "JSON_parse payload = Inr message"
    and rd: "storageRead nk [\<lparr>sr_collection = ''buckets'', sr_key = ''bucket'', sr_userId = uid\<rparr>]
               (world s) = (Inr objects, wa)"
    and tg: "tournamentsGetId nk [bm_id message] wa = (Inr (t # ts), wb)"
    and fresh: "\<not> stale (stored_bucket objects) t"
  shows "\<exists>tr. new_calls s (snd (getBucketedTournamentRpc JSON_parse ctx nk payload s)) = tr \<and>
     sampled tr = [] \<and> storage_writes tr = [] \<and>
     listed_members tr = [userIds (stored_bucket objects) @ [uid]]"
proof -
  obtain lres wc where ls: "tournamentRecordsList nk (bm_id message)
      (userIds (stored_bucket objects) @ [uid]) (bm_limit message) None None wb = (lres, wc)"
    by (cases "tournamentRecordsList nk (bm_id message)
      (userIds (stored_bucket objects) @ [uid]) (bm_limit message) None None wb")
  show ?thesis
    using uid parse rd tg fresh ls
    by (cases lres)
      (simp_all add: getBucketedTournamentRpc_def bucketed_records_def truthy_def prog_defs nk_defs
        new_calls_def obs_defs)
qed

lemma bucketed_regenerate:
  assumes uid: "ctx_userId ctx = Some uid" "uid \<noteq> []"
    and parse: "JSON_parse payload = Inr message"
    and rd: "storageRead nk [\<lparr>sr_collection = ''buckets'', sr_key = ''bucket'', sr_userId = uid\<rparr>]
               (world s) = (Inr objects, wa)"
    and tg: "tournamentsGetId nk [bm_id message] wa = (Inr (t # ts), wb)"
    and st: "stale (stored_bucket objects) t"
    and us: "usersGetRandom nk 15 wb = (ures, wc)"
  shows "\<exists>tr. new_calls s (snd (getBucketedTournamentRpc JSON_parse ctx nk payload s)) = tr \<and>
     sampled tr = [15] \<and>
     storage_writes tr = (case ures of Inl e \<Rightarrow> [] | Inr users \<Rightarrow> [[bucket_write uid t users]]) \<and>
     (\<forall>members \<in> set (listed_members tr).
        \<exists>users. ures = Inr users \<and> members = map userId users @ [uid]) \<and>
     length (listed_members tr) \<le> 1 \<and>
     (\<forall>users. ures = Inr users \<and> fst (storageWrite nk [bucket_write uid t users] wc) = Inr ()
        \<longrightarrow> listed_members tr = [map userId users @ [uid]])"
proof (cases ures)
  case (Inl e)
  then show ?thesis
    using uid parse rd tg st us
    by (simp add: getBucketedTournamentRpc_def bucketed_records_def regenerate_bucket_def
        truthy_def prog_defs nk_defs new_calls_def obs_defs bucketSize_def)
next
  case (Inr users)
  obtain wres wd where wr: "storageWrite nk [bucket_write uid t users] wc = (wres, wd)"
    by (cases "storageWrite nk [bucket_write uid t users] wc")
  obtain lres we where ls: "tournamentRecordsList nk (bm_id message)
      (map userId users @ [uid]) (bm_limit message) None None wd = (lres, we)"
    by (cases "tournamentRecordsList nk (bm_id message)
      (map userId users @ [uid]) (bm_limit message) None None wd")
  show ?thesis
    using uid parse rd tg st us Inr wr ls
    by (cases wres; cases lres)
      (simp_all add: getBucketedTournamentRpc_def bucketed_records_def regenerate_bucket_def
        truthy_def prog_defs nk_defs new_calls_def obs_defs bucketSize_def bucket_write_def)
qed

lemma demo_first_call:
  "snd (demo_bucket_call demo_users demo_sys) =
     \<lparr>world = \<lparr>clock = 0, bucket = Some \<lparr>resetTimeUnix = 1000, userIds = map userId demo_users\<rparr>\<rparr>,
      calls =
        [StorageRead [\<lparr>sr_collection = ''buckets'', sr_key = ''bucket'', sr_userId = ''player''\<rparr>],
         TournamentsGetId [Some ''live_event_1''],
         LoggerDebug ''getBucketedTournamentRpc new bucket for '',
         UsersGetRandom 15,
         StorageWrite [bucket_write ''player'' (demo_tournament (Some sample_rewards)) demo_users],
         TournamentRecordsList (Some ''live_event_1'') (map userId demo_users @ [''player''])
           (Some 32) None None]\<rparr>"
  by (simp add: demo_bucket_call_def getBucketedTournamentRpc_def bucketed_records_def
      regenerate_bucket_def truthy_def prog_defs nk_defs bucketSize_def bucket_write_def
      stored_bucket_def stale_def demo_defs)

text \<open>
  Claim C1.  For a call that reaches the decision, with the stored bucket \<open>b\<close> (the empty
  bucket when nothing is stored) and the tournament \<open>t\<close>: the sampler is asked for 15
  users (the cohort is regenerated) exactly when \<open>resetTimeUnix b\<close> differs from
  \<open>endActive t\<close> or \<open>b\<close> has fewer than 15 member ids.  A regeneration whose sampling
  returns makes exactly one storage write, of the bucket with the sampled ids and the
  reset time \<open>endActive t\<close>.  When neither condition holds there is no storage write, and
  the listing is asked for the stored members followed by the player's own id.
\<close>

theorem bucket_regenerated_iff_stale:
  assumes "ctx_userId ctx = Some uid" and "uid \<noteq> []"
    and "JSON_parse payload = Inr message"
    and "storageRead nk [\<lparr>sr_collection = ''buckets'', sr_key = ''bucket'', sr_userId = uid\<rparr>]
           (world s) = (Inr objects, wa)"
    and "tournamentsGetId nk [bm_id message] wa = (Inr (t # ts), wb)"
    and "usersGetRandom nk 15 wb = (ures, wc)"
    and "b = stored_bucket objects"
    and "tr = new_calls s (snd (getBucketedTournamentRpc JSON_parse ctx nk payload s))"
  shows "sampled tr =
       (if resetTimeUnix b \<noteq> endActive t \<or> length (userIds b) < 15 then [15] else []) \<and>
     storage_writes tr =
       (if resetTimeUnix b \<noteq> endActive t \<or> length (userIds b) < 15
        then (case ures of Inl e \<Rightarrow> [] | Inr users \<Rightarrow> [[bucket_write uid t users]])
        else []) \<and>
     (if resetTimeUnix b \<noteq> endActive t \<or> length (userIds b) < 15
      then length (listed_members tr) \<le> 1
      else listed_members tr = [userIds b @ [uid]])"
proof (cases "stale (stored_bucket objects) t")
  case True
  have "\<exists>tr. new_calls s (snd (getBucketedTournamentRpc JSON_parse ctx nk payload s)) = tr \<and>
     sampled tr = [15] \<and>
     storage_writes tr = (case ures of Inl e \<Rightarrow> [] | Inr users \<Rightarrow> [[bucket_write uid t users]]) \<and>
     (\<forall>members \<in> set (listed_members tr).
        \<exists>users. ures = Inr users \<and> members = map userId users @ [uid]) \<and>
     length (listed_members tr) \<le> 1 \<and>
     (\<forall>users. ures = Inr users \<and> fst (storageWrite nk [bucket_write uid t users] wc) = Inr ()
        \<longrightarrow> listed_members tr = [map userId users @ [uid]])"
    using assms(1-5) True assms(6) by (rule bucketed_regenerate)
  with True assms(7,8) show ?thesis by (simp add: stale_def bucketSize_def)
next
  case False
  have "\<exists>tr. new_calls s (snd (getBucketedTournamentRpc JSON_parse ctx nk payload s)) = tr \<and>
     sampled tr = [] \<and> storage_writes tr = [] \<and>
     listed_members tr = [userIds (stored_bucket objects) @ [uid]]"
    using assms(1-5) False by (rule bucketed_reuse)
  with False assms(7,8) show ?thesis by (simp add: stale_def bucketSize_def)
qed

theorem bucket_regenerated_iff_stale_witness:
  "sampled (new_calls demo_sys (snd (demo_bucket_call demo_users demo_sys))) = [15] \<and>
   storage_writes (new_calls demo_sys (snd (demo_bucket_call demo_users demo_sys))) =
     [[bucket_write ''player'' (demo_tournament (Some sample_rewards)) demo_users]] \<and>
   sampled (new_calls (snd (demo_bucket_call demo_users demo_sys))
     (snd (demo_bucket_call demo_users (snd (demo_bucket_call demo_users demo_sys))))) = [] \<and>
   storage_writes (new_calls (snd (demo_bucket_call demo_users demo_sys))
     (snd (demo_bucket_call demo_users (snd (demo_bucket_call demo_users demo_sys))))) = [] \<and>
   listed_members (new_calls (snd (demo_bucket_call demo_users demo_sys))
     (snd (demo_bucket_call demo_users (snd (demo_bucket_call demo_users demo_sys))))) =
     [map userId demo_users @ [''player'']]"
proof -
  let ?ctx = "\<lparr>ctx_userId = Some ''player''\<rparr>"
  let ?nk = "demo_nk demo_users (Some sample_rewards)"
  let ?msg = "\<lparr>bm_id = Some ''live_event_1'', bm_limit = Some 32\<rparr>"
  let ?t = "demo_tournament (Some sample_rewards)"
  let ?b = "\<lparr>resetTimeUnix = 1000, userIds = map userId demo_users\<rparr>"
  let ?req = "[\<lparr>sr_collection = ''buckets'', sr_key = ''bucket'', sr_userId = ''player''\<rparr>]"
  let ?s1 = "snd (demo_bucket_call demo_users demo_sys)"
  let ?s2 = "snd (demo_bucket_call demo_users ?s1)"
  have w1: "world ?s1 = \<lparr>clock = 0, bucket = Some ?b\<rparr>"
    by (simp add: demo_first_call)
  have uid: "ctx_userId ?ctx = Some ''player''" "''player'' \<noteq> []"
    by simp_all
  have parse: "demo_parse_bucket ''{}'' = Inr ?msg"
    by (simp add: demo_parse_bucket_def)
  have tg: "tournamentsGetId ?nk [bm_id ?msg] w = (Inr [?t], w)" for w
    by (simp add: demo_nk_def)
  have us: "usersGetRandom ?nk 15 w = (Inr demo_users, w)" for w
    by (simp add: demo_nk_def demo_users_def)
  have rd1: "storageRead ?nk ?req (world demo_sys) = (Inr [], world demo_sys)"
    by (simp add: demo_nk_def demo_sys_def)
  have rd2: "storageRead ?nk ?req (world ?s1) = (Inr [\<lparr>object_value = ?b\<rparr>], world ?s1)"
    by (simp add: w1) (simp add: demo_nk_def)
  have first: "sampled (new_calls demo_sys ?s1) = [15] \<and>
     storage_writes (new_calls demo_sys ?s1) = [[bucket_write ''player'' ?t demo_users]]"
    using bucket_regenerated_iff_stale [where JSON_parse = demo_parse_bucket
        and payload = "''{}''", OF uid parse rd1 tg us refl refl]
    by (simp add: demo_bucket_call_def stored_bucket_def)
  have second: "sampled (new_calls ?s1 ?s2) = [] \<and> storage_writes (new_calls ?s1 ?s2) = [] \<and>
     listed_members (new_calls ?s1 ?s2) = [map userId demo_users @ [''player'']]"
    using bucket_regenerated_iff_stale [where JSON_parse = demo_parse_bucket
        and payload = "''{}''", OF uid parse rd2 tg us refl refl]
    by (simp add: demo_bucket_call_def stored_bucket_def demo_tournament_def demo_users_def)
  from first second show ?thesis by simp
qed

text \<open>
  Claim C5, as stated, fails: the sampler does not exclude the requesting player.  When
  it returns the player among the sampled users, the member list that is written to
  storage contains the player's id, and the cohort passed to the listing contains it
  twice.
\<close>

lemma demo_self_sampled:
  "snd (demo_bucket_call two_users demo_sys) =
     \<lparr>world = \<lparr>clock = 0, bucket = Some \<lparr>resetTimeUnix = 1000, userIds = [''player'', ''u01'']\<rparr>\<rparr>,
      calls =
        [StorageRead [\<lparr>sr_collection = ''buckets'', sr_key = ''bucket'', sr_userId = ''player''\<rparr>],
         TournamentsGetId [Some ''live_event_1''],
         LoggerDebug ''getBucketedTournamentRpc new bucket for '',
         UsersGetRandom 15,
         StorageWrite [bucket_write ''player'' (demo_tournament (Some sample_rewards)) two_users],
         TournamentRecordsList (Some ''live_event_1'') [''player'', ''u01'', ''player'']
           (Some 32) None None]\<rparr>"
  by (simp add: demo_bucket_call_def getBucketedTournamentRpc_def bucketed_records_def
      regenerate_bucket_def truthy_def prog_defs nk_defs bucketSize_def bucket_write_def
      stored_bucket_def stale_def demo_defs two_users_def)

theorem cohort_self_twice_counterexample:
  "listed_members (new_calls demo_sys (snd (demo_bucket_call two_users demo_sys))) =
     [[''player'', ''u01'', ''player'']] \<and>
   count_list [''player'', ''u01'', ''player''] ''player'' = 2 \<and>
   written_members (new_calls demo_sys (snd (demo_bucket_call two_users demo_sys))) =
     [[''player'', ''u01'']] \<and>
   bucket (world (snd (demo_bucket_call two_users demo_sys))) =
     Some \<lparr>resetTimeUnix = 1000, userIds = [''player'', ''u01'']\<rparr>"
  unfolding demo_self_sampled
  by (simp add: new_calls_def demo_sys_def obs_defs bucket_write_def two_users_def)

text \<open>
  Claim C5, amended.  For a call that reaches the decision, the cohort passed to the
  listing is the member list of the bucket (the sampled ids after a regeneration, the
  stored ids otherwise) followed by the player's own id, so it contains that id once
  more than the member list does; the listing is asked at most once.  The member list
  written to storage by a regeneration is the list of the sampled ids, without the
  appended id; nothing is written otherwise.
\<close>

theorem cohort_members_then_self:
  assumes "ctx_userId ctx = Some uid" and "uid \<noteq> []"
    and "JSON_parse payload = Inr message"
    and "storageRead nk [\<lparr>sr_collection = ''buckets'', sr_key = ''bucket'', sr_userId = uid\<rparr>]
           (world s) = (Inr objects, wa)"
    and "tournamentsGetId nk [bm_id message] wa = (Inr (t # ts), wb)"
    and "usersGetRandom nk 15 wb = (ures, wc)"
    and "b = stored_bucket objects"
    and "tr = new_calls s (snd (getBucketedTournamentRpc JSON_parse ctx nk payload s))"
  shows "(\<forall>cohort \<in> set (listed_members tr).
        \<exists>members. cohort = members @ [uid] \<and>
          count_list cohort uid = Suc (count_list members uid) \<and>
          (if stale b t then \<exists>users. ures = Inr users \<and> members = map userId users
           else members = userIds b)) \<and>
     length (listed_members tr) \<le> 1 \<and>
     written_members tr =
       (if stale b t then (case ures of Inl e \<Rightarrow> [] | Inr users \<Rightarrow> [map userId users]) else [])"
proof (cases "stale (stored_bucket objects) t")
  case True
  have "\<exists>tr. new_calls s (snd (getBucketedTournamentRpc JSON_parse ctx nk payload s)) = tr \<and>
     sampled tr = [15] \<and>
     storage_writes tr = (case ures of Inl e \<Rightarrow> [] | Inr users \<Rightarrow> [[bucket_write uid t users]]) \<and>
     (\<forall>members \<in> set (listed_members tr).
        \<exists>users. ures = Inr users \<and> members = map userId users @ [uid]) \<and>
     length (listed_members tr) \<le> 1 \<and>
     (\<forall>users. ures = Inr users \<and> fst (storageWrite nk [bucket_write uid t users] wc) = Inr ()
        \<longrightarrow> listed_members tr = [map userId users @ [uid]])"
    using assms(1-5) True assms(6) by (rule bucketed_regenerate)
  with True assms(7,8) show ?thesis
    by (cases ures) (auto simp: written_members_def bucket_write_def)
next
  case False
  have "\<exists>tr. new_calls s (snd (getBucketedTournamentRpc JSON_parse ctx nk payload s)) = tr \<and>
     sampled tr = [] \<and> storage_writes tr = [] \<and>
     listed_members tr = [userIds (stored_bucket objects) @ [uid]]"
    using assms(1-5) False by (rule bucketed_reuse)
  with False assms(7,8) show ?thesis
    by (simp add: written_members_def)
qed

theorem cohort_members_then_self_witness:
  "listed_members (new_calls demo_sys (snd (demo_bucket_call demo_users demo_sys))) =
     [map userId demo_users @ [''player'']] \<and>
   count_list (map userId demo_users @ [''player'']) ''player'' = 1 \<and>
   written_members (new_calls demo_sys (snd (demo_bucket_call demo_users demo_sys))) =
     [map userId demo_users]"
proof -
  let ?ctx = "\<lparr>ctx_userId = Some ''player''\<rparr>"
  let ?nk = "demo_nk demo_users (Some sample_rewards)"
  let ?msg = "\<lparr>bm_id = Some ''live_event_1'', bm_limit = Some 32\<rparr>"
  let ?t = "demo_tournament (Some sample_rewards)"
  let ?req = "[\<lparr>sr_collection = ''buckets'', sr_key = ''bucket'', sr_userId = ''player''\<rparr>]"
  let ?s1 = "snd (demo_bucket_call demo_users demo_sys)"
  have uid: "ctx_userId ?ctx = Some ''player''" "''player'' \<noteq> []"
    by simp_all
  have parse: "demo_parse_bucket ''{}'' = Inr ?msg"
    by (simp add: demo_parse_bucket_def)
  have tg: "tournamentsGetId ?nk [bm_id ?msg] (world demo_sys) = (Inr [?t], world demo_sys)"
    by (simp add: demo_nk_def)
  have us: "usersGetRandom ?nk 15 (world demo_sys) = (Inr demo_users, world demo_sys)"
    by (simp add: demo_nk_def demo_users_def)
  have rd: "storageRead ?nk ?req (world demo_sys) = (Inr [], world demo_sys)"
    by (simp add: demo_nk_def demo_sys_def)
  have listed: "listed_members (new_calls demo_sys ?s1) = [map userId demo_users @ [''player'']]"
    unfolding demo_first_call by (simp add: new_calls_def demo_sys_def listed_members_def)
  have "written_members (new_calls demo_sys ?s1) = [map userId demo_users]"
    using cohort_members_then_self [where JSON_parse = demo_parse_bucket
        and payload = "''{}''", OF uid parse rd tg us refl refl]
    by (simp add: demo_bucket_call_def stored_bucket_def stale_def bucketSize_def)
  moreover have "count_list (map userId demo_users @ [''player'']) ''player'' = 1"
    by (simp add: demo_users_def)
  ultimately show ?thesis using listed by simp
qed

text \<open>The sample leaderboard: its listing is exhausted after two pages, whatever the
  state of the world.\<close>

lemma demo_listed:
  "listed_pages (demo_nk users rewards) t reset 2 (Some []) w =
     Some [([], demo_page []), (''page2'', demo_page ''page2'')]"
  by (simp add: numeral_2_eq_2 demo_nk_def demo_page_def)

lemma demo_leaderboard:
  "leaderboard_of [([], demo_page []), (''page2'', demo_page ''page2'')] =
     [alice, bob, carol, dave]"
  by (simp add: leaderboard_of_def page_records_def demo_page_def)

lemma demo_last_page: "nextCursor (demo_page ''page2'') = None"
  by (simp add: demo_page_def)

lemma demo_scan_first_only:
  "scan_records (demo_nk demo_users (Some first_only_rewards))
      (demo_tournament (Some first_only_rewards)) first_only_rewards 2000 (Some [])
      \<lparr>notifications = [], walletUpdates = []\<rparr> demo_sys =
   Some (Inl TypeError,
     \<lparr>world = \<lparr>clock = 0, bucket = None\<rparr>,
      calls = [TournamentRecordsList (Some ''live_event_1'') [] (Some 100) (Some []) (Some 2000),
               Visit alice, Visit bob]\<rparr>)"
  by (simp add: scan_records.simps scan_page_def reward_record_def getReward_def round_tier_def
      tier_coins_def first_only_rewards_def prog_defs nk_defs demo_nk_def demo_sys_def
      demo_tournament_def demo_page_def alice_def bob_def)

lemma demo_no_throw: "\<forall>r \<in> set [alice, bob, carol, dave]. no_throw sample_rewards r"
  by (simp add: no_throw_def getReward_def round_tier_def tier_coins_def sample_rewards_def
      alice_def bob_def carol_def dave_def)

lemma demo_first_only_throw:
  "no_throw first_only_rewards alice" "\<not> no_throw first_only_rewards bob"
  by (simp_all add: no_throw_def getReward_def round_tier_def tier_coins_def
      first_only_rewards_def alice_def bob_def)

lemma demo_decided:
  "walletUpdates (decided_all t sample_rewards [alice, bob, carol, dave]
      \<lparr>notifications = [], walletUpdates = []\<rparr>) =
     [\<lparr>wu_userId = ''alice'', changeset = \<lparr>coins = 250\<rparr>\<rparr>,
      \<lparr>wu_userId = ''bob'', changeset = \<lparr>coins = 200\<rparr>\<rparr>,
      \<lparr>wu_userId = ''carol'', changeset = \<lparr>coins = 150\<rparr>\<rparr>]"
  by (simp add: decided_all_def decided_def push_reward_def getReward_def round_tier_def
      tier_coins_def sample_rewards_def Math_round_numeral alice_def bob_def carol_def dave_def)

text \<open>
  Claim C4, as stated, fails: a per-record decision that throws ends the scan.  On the
  sample leaderboard with the reward table that has a first tier only, the listing
  returns two pages, the second with an exhausted cursor, and the scan ends with a
  TypeError at the second record: the third and the fourth record are never visited.
\<close>

theorem scan_stops_at_throw_counterexample:
  "listed_pages (demo_nk demo_users (Some first_only_rewards))
      (demo_tournament (Some first_only_rewards)) 2000 2 (Some []) (world demo_sys) =
     Some [([], demo_page []), (''page2'', demo_page ''page2'')] \<and>
   nextCursor (demo_page ''page2'') = None \<and>
   leaderboard_of [([], demo_page []), (''page2'', demo_page ''page2'')] =
     [alice, bob, carol, dave] \<and>
   map_option (\<lambda>(res, s'). (res, visited (new_calls demo_sys s')))
     (scan_records (demo_nk demo_users (Some first_only_rewards))
        (demo_tournament (Some first_only_rewards)) first_only_rewards 2000 (Some [])
        \<lparr>notifications = [], walletUpdates = []\<rparr> demo_sys) =
     Some (Inl TypeError, [alice, bob]) \<and>
   [alice, bob] \<noteq> [alice, bob, carol, dave]"
  unfolding demo_scan_first_only
  by (simp add: demo_listed demo_leaderboard demo_last_page new_calls_def demo_sys_def
      visited_def)

text \<open>
  Claim C4, amended.  Take a run of the scan loop whose listing, followed from the empty
  cursor through the requests of the loop and the worlds they leave, returns its pages
  without throwing and exhausts its cursor after finitely many pages \<open>ps\<close>; the
  leaderboard is the records of these pages, in order.  Nothing is asked of the listing
  at other cursors or in other worlds.  Then the loop terminates.  Every call it makes is
  a listing request for the tournament with no member filter, page size 100, a cursor
  and the reset time as expiry override, and the requests it makes are those of an
  initial segment of the pages, each page requested once at its cursor, in order.

  When no per-record decision throws, the loop returns normally with the batches of one
  decision per record of the leaderboard, in order; the records visited are the whole
  leaderboard, each once and in order; every page was requested.

  When a decision throws, the loop ends with that TypeError at the first record \<open>k\<close>
  whose decision throws: the records visited are the records up to and including that
  one, each once and in order, and no later record is visited.
\<close>

theorem scan_visits_leaderboard:
  assumes "listed_pages nk t reset n (Some []) (world s) = Some ps"
  shows "\<exists>res s'.
      scan_records nk t rewards reset (Some []) acc s = Some (res, s') \<and>
      (\<forall>ev \<in> set (new_calls s s'). scan_event t reset ev) \<and>
      (\<exists>m. listings (new_calls s s') = map (scan_request t reset) (map fst (take m ps))) \<and>
      (if \<forall>r \<in> set (leaderboard_of ps). no_throw rewards r
       then res = Inr (decided_all t rewards (leaderboard_of ps) acc) \<and>
            visited (new_calls s s') = leaderboard_of ps \<and>
            listings (new_calls s s') = map (scan_request t reset) (map fst ps)
       else res = Inl TypeError \<and>
            (\<exists>k < length (leaderboard_of ps).
               (\<forall>i < k. no_throw rewards (leaderboard_of ps ! i)) \<and>
               \<not> no_throw rewards (leaderboard_of ps ! k) \<and>
               visited (new_calls s s') = take (Suc k) (leaderboard_of ps)))"
proof -
  let ?lb = "leaderboard_of ps"
  from scan_records_listed [OF assms, where rewards = rewards and acc = acc]
  obtain s' tr where
    run: "scan_records nk t rewards reset (Some []) acc s =
      Some (if \<forall>r \<in> set ?lb. no_throw rewards r
            then Inr (decided_all t rewards ?lb acc) else Inl TypeError, s')" and
    cs: "calls s' = calls s @ tr" and
    evs: "\<forall>ev \<in> set tr. scan_event t reset ev" and
    vis: "visited tr = through_first_throw rewards ?lb" and
    lst: "(\<forall>r \<in> set ?lb. no_throw rewards r) \<longrightarrow>
       listings tr = map (scan_request t reset) (map fst ps)" and
    pre: "\<exists>m. listings tr = map (scan_request t reset) (map fst (take m ps))"
    by blast
  have nc: "new_calls s s' = tr"
    using cs by (simp add: new_calls_def)
  show ?thesis
  proof (cases "\<forall>r \<in> set ?lb. no_throw rewards r")
    case True
    then have "visited tr = ?lb"
      using vis by (simp add: through_first_throw_all)
    with run evs lst pre True nc show ?thesis by simp
  next
    case False
    from through_first_throw_stop [OF False] obtain k where
      "k < length ?lb" "\<forall>i < k. no_throw rewards (?lb ! i)" "\<not> no_throw rewards (?lb ! k)"
      "through_first_throw rewards ?lb = take (Suc k) ?lb"
      by blast
    then have "\<exists>k < length ?lb. (\<forall>i < k. no_throw rewards (?lb ! i)) \<and>
        \<not> no_throw rewards (?lb ! k) \<and> visited tr = take (Suc k) ?lb"
      using vis by auto
    with run evs pre False nc show ?thesis by simp
  qed
qed

theorem scan_visits_leaderboard_witness:
  "(\<exists>acc' s'.
      scan_records (demo_nk demo_users (Some sample_rewards))
        (demo_tournament (Some sample_rewards)) sample_rewards 2000 (Some [])
        \<lparr>notifications = [], walletUpdates = []\<rparr> demo_sys = Some (Inr acc', s') \<and>
      walletUpdates acc' =
        [\<lparr>wu_userId = ''alice'', changeset = \<lparr>coins = 250\<rparr>\<rparr>,
         \<lparr>wu_userId = ''bob'', changeset = \<lparr>coins = 200\<rparr>\<rparr>,
         \<lparr>wu_userId = ''carol'', changeset = \<lparr>coins = 150\<rparr>\<rparr>] \<and>
      visited (new_calls demo_sys s') = [alice, bob, carol, dave] \<and>
      listings (new_calls demo_sys s') =
        [TournamentRecordsList (Some ''live_event_1'') [] (Some 100) (Some []) (Some 2000),
         TournamentRecordsList (Some ''live_event_1'') [] (Some 100) (Some ''page2'')
           (Some 2000)]) \<and>
   (\<exists>s'.
      scan_records (demo_nk demo_users (Some first_only_rewards))
        (demo_tournament (Some first_only_rewards)) first_only_rewards 2000 (Some [])
        \<lparr>notifications = [], walletUpdates = []\<rparr> demo_sys = Some (Inl TypeError, s') \<and>
      visited (new_calls demo_sys s') = [alice, bob])"
proof
  let ?t = "demo_tournament (Some sample_rewards)"
  let ?acc0 = "\<lparr>notifications = [], walletUpdates = []\<rparr>"
  from scan_visits_leaderboard
    [OF demo_listed [of demo_users "Some sample_rewards" ?t 2000 "world demo_sys"],
      where rewards = sample_rewards and acc = ?acc0]
    demo_no_throw
  obtain s' where
    "scan_records (demo_nk demo_users (Some sample_rewards)) ?t sample_rewards 2000 (Some [])
       ?acc0 demo_sys =
       Some (Inr (decided_all ?t sample_rewards [alice, bob, carol, dave] ?acc0), s')"
    "visited (new_calls demo_sys s') = [alice, bob, carol, dave]"
    "listings (new_calls demo_sys s') =
       [scan_request ?t 2000 [], scan_request ?t 2000 ''page2'']"
    by (auto simp: demo_leaderboard)
  then show "\<exists>acc' s'.
      scan_records (demo_nk demo_users (Some sample_rewards)) ?t sample_rewards 2000 (Some [])
        ?acc0 demo_sys = Some (Inr acc', s') \<and>
      walletUpdates acc' =
        [\<lparr>wu_userId = ''alice'', changeset = \<lparr>coins = 250\<rparr>\<rparr>,
         \<lparr>wu_userId = ''bob'', changeset = \<lparr>coins = 200\<rparr>\<rparr>,
         \<lparr>wu_userId = ''carol'', changeset = \<lparr>coins = 150\<rparr>\<rparr>] \<and>
      visited (new_calls demo_sys s') = [alice, bob, carol, dave] \<and>
      listings (new_calls demo_sys s') =
        [TournamentRecordsList (Some ''live_event_1'') [] (Some 100) (Some []) (Some 2000),
         TournamentRecordsList (Some ''live_event_1'') [] (Some 100) (Some ''page2'')
           (Some 2000)]"
    by (simp add: demo_decided scan_request_def demo_tournament_def)
next
  let ?t = "demo_tournament (Some first_only_rewards)"
  let ?acc0 = "\<lparr>notifications = [], walletUpdates = []\<rparr>"
  let ?ps = "[([], demo_page []), (''page2'', demo_page ''page2'')]"
  have throws: "\<not> (\<forall>r \<in> set (leaderboard_of ?ps). no_throw first_only_rewards r)"
    unfolding demo_leaderboard using demo_first_only_throw by simp
  from scan_visits_leaderboard
    [OF demo_listed [of demo_users "Some first_only_rewards" ?t 2000 "world demo_sys"],
      where rewards = first_only_rewards and acc = ?acc0]
  obtain res s' where
    run0: "scan_records (demo_nk demo_users (Some first_only_rewards)) ?t first_only_rewards
       2000 (Some []) ?acc0 demo_sys = Some (res, s')" and
    branch: "if \<forall>r \<in> set (leaderboard_of ?ps). no_throw first_only_rewards r
       then res = Inr (decided_all ?t first_only_rewards (leaderboard_of ?ps) ?acc0) \<and>
            visited (new_calls demo_sys s') = leaderboard_of ?ps \<and>
            listings (new_calls demo_sys s') = map (scan_request ?t 2000) (map fst ?ps)
       else res = Inl TypeError \<and>
            (\<exists>k < length (leaderboard_of ?ps).
               (\<forall>i < k. no_throw first_only_rewards (leaderboard_of ?ps ! i)) \<and>
               \<not> no_throw first_only_rewards (leaderboard_of ?ps ! k) \<and>
               visited (new_calls demo_sys s') = take (Suc k) (leaderboard_of ?ps))"
    by blast
  from branch have stop: "res = Inl TypeError \<and>
      (\<exists>k < length (leaderboard_of ?ps).
         (\<forall>i < k. no_throw first_only_rewards (leaderboard_of ?ps ! i)) \<and>
         \<not> no_throw first_only_rewards (leaderboard_of ?ps ! k) \<and>
         visited (new_calls demo_sys s') = take (Suc k) (leaderboard_of ?ps))"
    unfolding if_not_P [OF throws] .
  from stop run0 have run: "scan_records (demo_nk demo_users (Some first_only_rewards)) ?t
      first_only_rewards 2000 (Some []) ?acc0 demo_sys = Some (Inl TypeError, s')"
    by simp
  from stop [unfolded demo_leaderboard] obtain k where
    k: "k < length [alice, bob, carol, dave]"
      "\<forall>i < k. no_throw first_only_rewards ([alice, bob, carol, dave] ! i)"
      "\<not> no_throw first_only_rewards ([alice, bob, carol, dave] ! k)" and
    vis: "visited (new_calls demo_sys s') = take (Suc k) [alice, bob, carol, dave]"
    by blast
  have "k = 1"
  proof -
    from k(1) consider "k = 0" | "k = 1" | "k = 2" | "k = 3" by fastforce
    then show ?thesis
    proof cases
      case 1
      with k(3) demo_first_only_throw(1) show ?thesis by simp
    next
      case 2
      then show ?thesis .
    next
      case 3
      then have "1 < k" by simp
      with k(2) have "no_throw first_only_rewards ([alice, bob, carol, dave] ! 1)" by blast
      with demo_first_only_throw(2) show ?thesis by simp
    next
      case 4
      then have "1 < k" by simp
      with k(2) have "no_throw first_only_rewards ([alice, bob, carol, dave] ! 1)" by blast
      with demo_first_only_throw(2) show ?thesis by simp
    qed
  qed
  with run vis show "\<exists>s'.
      scan_records (demo_nk demo_users (Some first_only_rewards)) ?t first_only_rewards 2000
        (Some []) ?acc0 demo_sys = Some (Inl TypeError, s') \<and>
      visited (new_calls demo_sys s') = [alice, bob]"
    by simp
qed

section \<open>Properties of the distribution\<close>

lemma wallet_batches_scan_events:
  "\<forall>ev \<in> set tr. scan_event t reset ev \<Longrightarrow> wallet_batches tr = []"
  by (induction tr) (auto simp: wallet_batches_def scan_event_def split: event.splits)

lemma commit_rewards_trace:
  "\<exists>tr. calls (snd (commit_rewards nk startTime acc s)) = calls s @ tr \<and>
     wallet_batches tr = [walletUpdates acc]"
proof -
  obtain r1 w1 where a: "walletsUpdate nk (walletUpdates acc) True (world s) = (r1, w1)"
    by (cases "walletsUpdate nk (walletUpdates acc) True (world s)")
  obtain r2 w2 where b: "notificationsSend nk (notifications acc) w1 = (r2, w2)"
    by (cases "notificationsSend nk (notifications acc) w1")
  obtain r3 w3 where c: "metricsTimerRecord nk ''rewardDistributionElapsedTimeSec'' []
      (Date_now nk w2 - startTime) w2 = (r3, w3)"
    by (cases "metricsTimerRecord nk ''rewardDistributionElapsedTimeSec'' []
      (Date_now nk w2 - startTime) w2")
  show ?thesis
    using a b c
    by (cases r1; cases r2; cases r3)
      (simp_all add: commit_rewards_def prog_defs nk_defs wallet_batches_def)
qed

lemma try_distribute_wallet:
  assumes "try_distribute nk t rewards reset s = Some (res, s')"
  shows "\<exists>tr. calls s' = calls s @ tr \<and> (\<forall>batch \<in> set (wallet_batches tr). integral_updates batch)"
proof -
  let ?acc0 = "\<lparr>notifications = [], walletUpdates = []\<rparr>"
  from assms obtain y where
    run: "scan_records nk t rewards reset (Some []) ?acc0 s = Some y"
    by (auto simp: try_distribute_def prog_defs split: option.splits)
  from scan_records_general [OF run] obtain tr1 where
    c1: "calls (snd y) = calls s @ tr1" and e1: "\<forall>ev \<in> set tr1. scan_event t reset ev" and
    i1: "\<forall>acc'. fst y = Inr acc' \<longrightarrow> integral_updates (walletUpdates acc')"
    by (auto simp: integral_updates_def)
  have w1: "wallet_batches tr1 = []"
    using e1 by (rule wallet_batches_scan_events)
  obtain r1 s1 where y: "y = (r1, s1)" by (cases y)
  show ?thesis
  proof (cases r1)
    case (Inl e)
    with assms run y have "s' = s1"
      by (simp add: try_distribute_def prog_defs)
    with c1 y w1 show ?thesis by auto
  next
    case (Inr acc1)
    with assms run y have s': "s' = snd (commit_rewards nk (Date_now nk (world s)) acc1 s1)"
      by (simp add: try_distribute_def prog_defs)
    from commit_rewards_trace [of nk "Date_now nk (world s)" acc1 s1] obtain tr2 where
      c2: "calls (snd (commit_rewards nk (Date_now nk (world s)) acc1 s1)) = calls s1 @ tr2" and
      w2: "wallet_batches tr2 = [walletUpdates acc1]"
      by blast
    have "calls s' = calls s @ (tr1 @ tr2)"
      using s' c1 c2 y by simp
    moreover have "wallet_batches (tr1 @ tr2) = [walletUpdates acc1]"
      using w1 w2 by (simp add: wallet_batches_def)
    moreover have "integral_updates (walletUpdates acc1)"
      using i1 y Inr by simp
    ultimately show ?thesis by (metis list.set_cases list.inject empty_iff empty_set)
  qed
qed

lemma distribute_wallet:
  assumes "distributeEventRewards nk t end_time reset s = Some (res, s')"
  shows "\<forall>batch \<in> set (wallet_batches (new_calls s s')). integral_updates batch"
proof (cases "metadata t")
  case None
  with assms have "new_calls s s' = [LoggerDebug ''Distributing event rewards for %s'']"
    by (auto simp: distributeEventRewards_def prog_defs new_calls_def)
  then show ?thesis by (simp add: wallet_batches_def)
next
  case md: (Some m)
  show ?thesis
  proof (cases "m ''rewards''")
    case None
    with assms md have "new_calls s s' = [LoggerDebug ''Distributing event rewards for %s'',
        LoggerDebug ''No rewards are defined for %s'']"
      by (auto simp: distributeEventRewards_def prog_defs new_calls_def)
    then show ?thesis by (simp add: wallet_batches_def)
  next
    case (Some rewards)
    let ?s0 = "s\<lparr>calls := calls s @ [LoggerDebug ''Distributing event rewards for %s'']\<rparr>"
    from assms md Some obtain r1 s1 where
      tr: "try_distribute nk t rewards reset ?s0 = Some (r1, s1)"
      by (auto simp: distributeEventRewards_def prog_defs split: option.splits)
    from try_distribute_wallet [OF this] obtain tr1 where
      c1: "calls s1 = calls ?s0 @ tr1" and
      i1: "\<forall>batch \<in> set (wallet_batches tr1). integral_updates batch"
      by blast
    have "\<exists>tr2. calls s' = calls s1 @ tr2 \<and> wallet_batches tr2 = []"
      using assms md Some tr
      by (cases r1) (auto simp: distributeEventRewards_def prog_defs wallet_batches_def)
    then obtain tr2 where c2: "calls s' = calls s1 @ tr2" and w2: "wallet_batches tr2 = []"
      by blast
    have "new_calls s s' = LoggerDebug ''Distributing event rewards for %s'' # tr1 @ tr2"
      using c1 c2 by (simp add: new_calls_def)
    then have "wallet_batches (new_calls s s') = wallet_batches tr1"
      using w2 by (simp add: wallet_batches_def)
    with i1 show ?thesis by simp
  qed
qed

lemma Math_round_fractions:
  "Math_round (1252 / 5) = 250" "Math_round (399 / 2) = 200"
  "Math_round (15049 / 100) = 150" "Math_round (5 / 2) = 3"
  using Math_round_eqI [of 250 "1252 / 5"] Math_round_eqI [of 200 "399 / 2"]
    Math_round_eqI [of 150 "15049 / 100"] Math_round_eqI [of 3 "5 / 2"]
  by simp_all

text \<open>Runs of the distribution on the sample leaderboard: with fractional amounts, with
  a ledger that rejects the batch, and with a reward table that has a first tier
  only.\<close>

lemmas eval_defs = distributeEventRewards_def try_distribute_def commit_rewards_def
  scan_records.simps scan_page_def reward_record_def push_reward_def getReward_def round_tier_def tier_coins_def
  prog_defs nk_defs

lemma demo_distribute_fractional:
  "distributeEventRewards (demo_nk demo_users (Some fractional_rewards))
     (demo_tournament (Some fractional_rewards)) 1000 2000 demo_sys =
   Some (Inr (),
     \<lparr>world = \<lparr>clock = 0, bucket = None\<rparr>,
      calls =
        [LoggerDebug ''Distributing event rewards for %s'',
         TournamentRecordsList (Some ''live_event_1'') [] (Some 100) (Some []) (Some 2000),
         Visit alice, Visit bob,
         TournamentRecordsList (Some ''live_event_1'') [] (Some 100) (Some ''page2'') (Some 2000),
         Visit carol, Visit dave,
         WalletsUpdate
           [\<lparr>wu_userId = ''alice'', changeset = \<lparr>coins = 250\<rparr>\<rparr>,
            \<lparr>wu_userId = ''bob'', changeset = \<lparr>coins = 200\<rparr>\<rparr>,
            \<lparr>wu_userId = ''carol'', changeset = \<lparr>coins = 150\<rparr>\<rparr>] True,
         NotificationsSend
           [\<lparr>notification_code = 1,
             content = \<lparr>event_name = None, content_reward = \<lparr>coins = 250\<rparr>, content_rank = 1\<rparr>,
             persistent = True, subject = ''event_reward'', n_userId = ''alice''\<rparr>,
            \<lparr>notification_code = 1,
             content = \<lparr>event_name = None, content_reward = \<lparr>coins = 200\<rparr>, content_rank = 2\<rparr>,
             persistent = True, subject = ''event_reward'', n_userId = ''bob''\<rparr>,
            \<lparr>notification_code = 1,
             content = \<lparr>event_name = None, content_reward = \<lparr>coins = 150\<rparr>, content_rank = 3\<rparr>,
             persistent = True, subject = ''event_reward'', n_userId = ''carol''\<rparr>],
         LoggerDebug ''%d players received rewards from the event %s'',
         MetricsTimerRecord ''rewardDistributionElapsedTimeSec'' [] 0]\<rparr>)"
  by (simp add: eval_defs fractional_rewards_def Math_round_fractions demo_nk_def demo_sys_def
      demo_tournament_def demo_page_def alice_def bob_def carol_def dave_def)

lemma demo_distribute_failing_wallet:
  "distributeEventRewards (failing_wallet_nk (Some sample_rewards))
     (demo_tournament (Some sample_rewards)) 1000 2000 demo_sys =
   Some (Inr (),
     \<lparr>world = \<lparr>clock = 0, bucket = None\<rparr>,
      calls =
        [LoggerDebug ''Distributing event rewards for %s'',
         TournamentRecordsList (Some ''live_event_1'') [] (Some 100) (Some []) (Some 2000),
         Visit alice, Visit bob,
         TournamentRecordsList (Some ''live_event_1'') [] (Some 100) (Some ''page2'') (Some 2000),
         Visit carol, Visit dave,
         WalletsUpdate
           [\<lparr>wu_userId = ''alice'', changeset = \<lparr>coins = 250\<rparr>\<rparr>,
            \<lparr>wu_userId = ''bob'', changeset = \<lparr>coins = 200\<rparr>\<rparr>,
            \<lparr>wu_userId = ''carol'', changeset = \<lparr>coins = 150\<rparr>\<rparr>] True,
         LoggerError ''Error while distributing rewards: %s'' (GoError ''wallet'')]\<rparr>)"
  by (simp add: eval_defs sample_rewards_def Math_round_numeral failing_wallet_nk_def demo_nk_def
      demo_sys_def demo_tournament_def demo_page_def alice_def bob_def carol_def dave_def)

lemma demo_distribute_first_only:
  "distributeEventRewards (demo_nk demo_users (Some first_only_rewards))
     (demo_tournament (Some first_only_rewards)) 1000 2000 demo_sys =
   Some (Inr (),
     \<lparr>world = \<lparr>clock = 0, bucket = None\<rparr>,
      calls =
        [LoggerDebug ''Distributing event rewards for %s'',
         TournamentRecordsList (Some ''live_event_1'') [] (Some 100) (Some []) (Some 2000),
         Visit alice, Visit bob,
         LoggerError ''Error while distributing rewards: %s'' TypeError]\<rparr>)"
  by (simp add: eval_defs first_only_rewards_def Math_round_numeral demo_nk_def
      demo_sys_def demo_tournament_def demo_page_def alice_def bob_def carol_def dave_def)

text \<open>
  Claim C3, as stated, fails: the read of \<^verbatim>\<open>tournament.metadata["rewards"]\<close> stands
  before the \<^verbatim>\<open>try\<close> block, so an exception raised during the lookup is not caught.
  For a tournament object without a metadata object, the function logs its first line
  and throws a TypeError to its caller.
\<close>

theorem distribute_lookup_throws_counterexample:
  "metadata no_metadata_tournament = None \<and>
   distributeEventRewards (demo_nk demo_users None) no_metadata_tournament 1000 2000 demo_sys =
     Some (Inl TypeError,
       demo_sys\<lparr>calls := [LoggerDebug ''Distributing event rewards for %s'']\<rparr>)"
  by (simp add: distributeEventRewards_def prog_defs no_metadata_tournament_def demo_sys_def)

text \<open>
  Claim C3, amended.  Whatever the listing, the ledger, the notifications and the
  metrics do, the only error that \<^verbatim>\<open>distributeEventRewards\<close> propagates to its caller
  is the TypeError of the lookup: it is thrown exactly when the tournament has no
  metadata object, after the first log line and before any collaborator is called.
  For a tournament with a metadata object the function never returns with a thrown
  value.  Without rewards in the metadata it logs two lines and returns, calling no
  collaborator.  With rewards, when the \<^verbatim>\<open>try\<close> block ends (normally or by a throw from
  the scan, a per-record decision, the commit or the telemetry), the function returns
  normally, after logging the error if there was one.  When the listing met by the scan
  returns its pages and exhausts its cursor after finitely many pages, the \<^verbatim>\<open>try\<close>
  block does end, and the function returns normally.
\<close>

theorem distribute_throws_only_at_lookup:
  "(metadata t = None \<longrightarrow>
      distributeEventRewards nk t end_time reset s =
        Some (Inl TypeError,
          s\<lparr>calls := calls s @ [LoggerDebug ''Distributing event rewards for %s'']\<rparr>)) \<and>
   (\<forall>e s'. distributeEventRewards nk t end_time reset s = Some (Inl e, s') \<longrightarrow>
      metadata t = None \<and> e = TypeError) \<and>
   (\<forall>md. metadata t = Some md \<longrightarrow>
      (md ''rewards'' = None \<longrightarrow>
         distributeEventRewards nk t end_time reset s =
           Some (Inr (), s\<lparr>calls := calls s @
             [LoggerDebug ''Distributing event rewards for %s'',
              LoggerDebug ''No rewards are defined for %s'']\<rparr>)) \<and>
      (\<forall>rewards res s1. md ''rewards'' = Some rewards \<longrightarrow>
         try_distribute nk t rewards reset
           (s\<lparr>calls := calls s @ [LoggerDebug ''Distributing event rewards for %s'']\<rparr>) =
           Some (res, s1) \<longrightarrow>
         distributeEventRewards nk t end_time reset s =
           Some (Inr (),
             (case res of
                Inl error \<Rightarrow>
                  s1\<lparr>calls := calls s1 @
                    [LoggerError ''Error while distributing rewards: %s'' error]\<rparr>
              | Inr u \<Rightarrow> s1))) \<and>
      (\<forall>rewards n ps. md ''rewards'' = Some rewards \<longrightarrow>
         listed_pages nk t reset n (Some []) (world s) = Some ps \<longrightarrow>
         (\<exists>s'. distributeEventRewards nk t end_time reset s = Some (Inr (), s'))))"
proof (intro conjI allI impI)
  assume "metadata t = None"
  then show "distributeEventRewards nk t end_time reset s =
        Some (Inl TypeError,
          s\<lparr>calls := calls s @ [LoggerDebug ''Distributing event rewards for %s'']\<rparr>)"
    by (simp add: distributeEventRewards_def prog_defs)
next
  fix e s'
  assume run: "distributeEventRewards nk t end_time reset s = Some (Inl e, s')"
  then show "metadata t = None"
    by (auto simp: distributeEventRewards_def prog_defs split: option.splits sum.splits)
  from run show "e = TypeError"
    by (auto simp: distributeEventRewards_def prog_defs split: option.splits sum.splits)
next
  fix md
  assume "metadata t = Some md" and "md ''rewards'' = None"
  then show "distributeEventRewards nk t end_time reset s =
        Some (Inr (), s\<lparr>calls := calls s @
          [LoggerDebug ''Distributing event rewards for %s'',
           LoggerDebug ''No rewards are defined for %s'']\<rparr>)"
    by (simp add: distributeEventRewards_def prog_defs)
next
  fix md rewards res s1
  assume "metadata t = Some md" and "md ''rewards'' = Some rewards"
    and "try_distribute nk t rewards reset
        (s\<lparr>calls := calls s @ [LoggerDebug ''Distributing event rewards for %s'']\<rparr>) =
        Some (res, s1)"
  then show "distributeEventRewards nk t end_time reset s =
        Some (Inr (),
          (case res of
             Inl error \<Rightarrow>
               s1\<lparr>calls := calls s1 @ [LoggerError ''Error while distributing rewards: %s'' error]\<rparr>
           | Inr u \<Rightarrow> s1))"
    by (cases res) (simp_all add: distributeEventRewards_def prog_defs)
next
  fix md rewards n ps
  let ?s0 = "s\<lparr>calls := calls s @ [LoggerDebug ''Distributing event rewards for %s'']\<rparr>"
  let ?acc0 = "\<lparr>notifications = [], walletUpdates = []\<rparr>"
  assume md: "metadata t = Some md" and rw: "md ''rewards'' = Some rewards"
    and lp: "listed_pages nk t reset n (Some []) (world s) = Some ps"
  from lp have "listed_pages nk t reset n (Some []) (world ?s0) = Some ps"
    by simp
  from scan_records_listed [OF this, where rewards = rewards and acc = ?acc0]
  obtain res s1 where
    "scan_records nk t rewards reset (Some []) ?acc0 ?s0 = Some (res, s1)"
    by blast
  then have "\<exists>y. try_distribute nk t rewards reset ?s0 = Some y"
    by (cases res) (simp_all add: try_distribute_def prog_defs)
  then obtain r2 s2 where "try_distribute nk t rewards reset ?s0 = Some (r2, s2)"
    by auto
  with md rw show "\<exists>s'. distributeEventRewards nk t end_time reset s = Some (Inr (), s')"
    by (cases r2) (simp_all add: distributeEventRewards_def prog_defs)
qed

theorem distribute_throws_only_at_lookup_witness:
  "distributeEventRewards (demo_nk demo_users None) (demo_tournament None) 1000 2000 demo_sys =
     Some (Inr (), demo_sys\<lparr>calls :=
       [LoggerDebug ''Distributing event rewards for %s'',
        LoggerDebug ''No rewards are defined for %s'']\<rparr>) \<and>
   (\<exists>s'. distributeEventRewards (demo_nk demo_users (Some sample_rewards))
      (demo_tournament (Some sample_rewards)) 1000 2000 demo_sys = Some (Inr (), s')) \<and>
   map_option (\<lambda>(res, s'). (res, last (calls s')))
     (distributeEventRewards (failing_wallet_nk (Some sample_rewards))
        (demo_tournament (Some sample_rewards)) 1000 2000 demo_sys) =
     Some (Inr (), LoggerError ''Error while distributing rewards: %s'' (GoError ''wallet'')) \<and>
   map_option (\<lambda>(res, s'). (res, last (calls s')))
     (distributeEventRewards (demo_nk demo_users (Some first_only_rewards))
        (demo_tournament (Some first_only_rewards)) 1000 2000 demo_sys) =
     Some (Inr (), LoggerError ''Error while distributing rewards: %s'' TypeError) \<and>
   map_option fst
     (distributeEventRewards (demo_nk demo_users None) no_metadata_tournament 1000 2000
        demo_sys) = Some (Inl TypeError)"
proof -
  have m0: "metadata (demo_tournament None) = Some Map.empty"
    by (simp add: demo_tournament_def)
  have r0: "(Map.empty :: string \<rightharpoonup> reward_table) ''rewards'' = None"
    by simp
  from distribute_throws_only_at_lookup
    [of "demo_tournament None" "demo_nk demo_users None" 1000 2000 demo_sys] m0 r0
  have "distributeEventRewards (demo_nk demo_users None) (demo_tournament None) 1000 2000
      demo_sys =
     Some (Inr (), demo_sys\<lparr>calls := calls demo_sys @
       [LoggerDebug ''Distributing event rewards for %s'',
        LoggerDebug ''No rewards are defined for %s'']\<rparr>)"
    by blast
  then have noop: "distributeEventRewards (demo_nk demo_users None) (demo_tournament None)
      1000 2000 demo_sys =
     Some (Inr (), demo_sys\<lparr>calls :=
       [LoggerDebug ''Distributing event rewards for %s'',
        LoggerDebug ''No rewards are defined for %s'']\<rparr>)"
    by (simp add: demo_sys_def)
  have m1: "metadata (demo_tournament (Some sample_rewards)) =
      Some [''rewards'' \<mapsto> sample_rewards]"
    by (simp add: demo_tournament_def)
  have r1: "[''rewards'' \<mapsto> sample_rewards] ''rewards'' = Some sample_rewards"
    by simp
  from distribute_throws_only_at_lookup
    [of "demo_tournament (Some sample_rewards)" "demo_nk demo_users (Some sample_rewards)"
      1000 2000 demo_sys] m1 r1
    demo_listed [of demo_users "Some sample_rewards" "demo_tournament (Some sample_rewards)"
      2000 "world demo_sys"]
  have returns: "\<exists>s'. distributeEventRewards (demo_nk demo_users (Some sample_rewards))
      (demo_tournament (Some sample_rewards)) 1000 2000 demo_sys = Some (Inr (), s')"
    by blast
  have m2: "metadata no_metadata_tournament = None"
    by (simp add: no_metadata_tournament_def)
  from distribute_throws_only_at_lookup
    [of no_metadata_tournament "demo_nk demo_users None" 1000 2000 demo_sys] m2
  have "distributeEventRewards (demo_nk demo_users None) no_metadata_tournament 1000 2000
      demo_sys =
     Some (Inl TypeError,
       demo_sys\<lparr>calls := calls demo_sys @ [LoggerDebug ''Distributing event rewards for %s'']\<rparr>)"
    by blast
  then have throws: "map_option fst
     (distributeEventRewards (demo_nk demo_users None) no_metadata_tournament 1000 2000
        demo_sys) = Some (Inl TypeError)"
    by simp
  show ?thesis
    unfolding demo_distribute_failing_wallet demo_distribute_first_only
    using noop returns throws by simp
qed

text \<open>
  Claim C7.  Every reward that \<^verbatim>\<open>getReward\<close> returns has an integral amount, and so has
  every wallet update of every batch that \<^verbatim>\<open>distributeEventRewards\<close> submits to the
  ledger, whatever the collaborators do.  A first tier configured as 250.4 gives the
  amount 250.
\<close>

theorem reward_amounts_integral:
  "(\<forall>rw. getReward rewards rnk sc = Inr (Some rw) \<longrightarrow> coins rw \<in> \<int>) \<and>
   (\<forall>res s'. distributeEventRewards nk t end_time reset s = Some (res, s') \<longrightarrow>
      (\<forall>batch \<in> set (wallet_batches (new_calls s s')). \<forall>u \<in> set batch.
         coins (changeset u) \<in> \<int>)) \<and>
   getReward [''first'' \<mapsto> \<lparr>coins = 2504 / 10\<rparr>] 1 50 = Inr (Some \<lparr>coins = 250\<rparr>)"
proof (intro conjI allI impI)
  fix rw assume "getReward rewards rnk sc = Inr (Some rw)"
  then show "coins rw \<in> \<int>" by (rule getReward_Ints)
next
  fix res s' assume "distributeEventRewards nk t end_time reset s = Some (res, s')"
  from distribute_wallet [OF this]
  show "\<forall>batch \<in> set (wallet_batches (new_calls s s')). \<forall>u \<in> set batch. coins (changeset u) \<in> \<int>"
    by (simp add: integral_updates_def)
next
  show "getReward [''first'' \<mapsto> \<lparr>coins = 2504 / 10\<rparr>] 1 50 = Inr (Some \<lparr>coins = 250\<rparr>)"
    by (simp add: getReward_def round_tier_def tier_coins_def Math_round_fractions)
qed

theorem reward_amounts_integral_witness:
  "getReward fractional_rewards 1 50 = Inr (Some \<lparr>coins = 250\<rparr>) \<and>
   getReward fractional_rewards 2 50 = Inr (Some \<lparr>coins = 200\<rparr>) \<and>
   getReward fractional_rewards 9 50 = Inr (Some \<lparr>coins = 3\<rparr>) \<and>
   map_option (\<lambda>(res, s'). wallet_batches (new_calls demo_sys s'))
     (distributeEventRewards (demo_nk demo_users (Some fractional_rewards))
        (demo_tournament (Some fractional_rewards)) 1000 2000 demo_sys) =
     Some [[\<lparr>wu_userId = ''alice'', changeset = \<lparr>coins = 250\<rparr>\<rparr>,
            \<lparr>wu_userId = ''bob'', changeset = \<lparr>coins = 200\<rparr>\<rparr>,
            \<lparr>wu_userId = ''carol'', changeset = \<lparr>coins = 150\<rparr>\<rparr>]] \<and>
   (250 :: rat) \<in> \<int> \<and> (200 :: rat) \<in> \<int> \<and> (150 :: rat) \<in> \<int> \<and> (3 :: rat) \<in> \<int>"
proof -
  have rewards: "getReward fractional_rewards 1 50 = Inr (Some \<lparr>coins = 250\<rparr>)"
    "getReward fractional_rewards 2 50 = Inr (Some \<lparr>coins = 200\<rparr>)"
    "getReward fractional_rewards 9 50 = Inr (Some \<lparr>coins = 3\<rparr>)"
    by (simp_all add: getReward_def round_tier_def tier_coins_def fractional_rewards_def
        Math_round_fractions)
  have batches: "map_option (\<lambda>(res, s'). wallet_batches (new_calls demo_sys s'))
     (distributeEventRewards (demo_nk demo_users (Some fractional_rewards))
        (demo_tournament (Some fractional_rewards)) 1000 2000 demo_sys) =
     Some [[\<lparr>wu_userId = ''alice'', changeset = \<lparr>coins = 250\<rparr>\<rparr>,
            \<lparr>wu_userId = ''bob'', changeset = \<lparr>coins = 200\<rparr>\<rparr>,
            \<lparr>wu_userId = ''carol'', changeset = \<lparr>coins = 150\<rparr>\<rparr>]]"
    unfolding demo_distribute_fractional
    by (simp add: new_calls_def demo_sys_def wallet_batches_def)
  from reward_amounts_integral [of fractional_rewards 1 50] rewards(1)
  have "(250 :: rat) \<in> \<int>" by fastforce
  moreover from reward_amounts_integral [of fractional_rewards 2 50] rewards(2)
  have "(200 :: rat) \<in> \<int>" by fastforce
  moreover from reward_amounts_integral [of fractional_rewards 9 50] rewards(3)
  have "(3 :: rat) \<in> \<int>" by fastforce
  moreover have "(150 :: rat) \<in> \<int>" by simp
  ultimately show ?thesis using rewards batches by simp
qed

end
